theory Spec2Isabelle
  imports Main "HOL-Library.Signed_Division"
begin

section \<open>pgauditlogtofile: audit lines redirected to time-rotated files\<close>

text \<open>
  A shallow embedding of \<^verbatim>\<open>logtofile.c\<close>. Each C function becomes a HOL function of
  the same name. The globals of the backend and the shared-memory structure are passed
  explicitly and returned updated; the values the operating system and the PostgreSQL
  host hand back (clock readings, the time-zone offset, the outcome of opening and of
  writing a file) are arguments.

  \<^verbatim>\<open>pg_time_t\<close> is a signed 64-bit count of seconds, modelled by \<open>int\<close>: the clock
  readings of this century are below \<open>2 ^ 32\<close>, far from the ends of that type. The
  rotation age is an \<^verbatim>\<open>int\<close> of 32 bits, and so is its product with
  \<^verbatim>\<open>SECS_PER_MINUTE\<close>: the product is modelled with the wrap-around of that width
  (\<open>int_times\<close>). The operator \<^verbatim>\<open>%\<close> of C truncates towards zero: it is \<open>smod\<close>, not
  \<open>mod\<close>.
\<close>

subsection \<open>Constants and configuration\<close>

type_synonym pg_time_t = int

definition SECS_PER_MINUTE :: int where
  "SECS_PER_MINUTE = 60"

definition MINS_PER_HOUR :: int where
  "MINS_PER_HOUR = 60"

definition HOURS_PER_DAY :: int where
  "HOURS_PER_DAY = 24"

definition INT_MAX :: int where
  "INT_MAX = 2147483647"

text \<open>
  The product of two values of type \<^verbatim>\<open>int\<close>, itself an \<^verbatim>\<open>int\<close>. A product outside the
  range of the type is undefined in C; the compilers in use compute it in two's complement
  on 32 bits, and so does \<open>int_times\<close>: \<open>int_wrap\<close> is the value of the low 32 bits.
\<close>

definition int_wrap :: "int \<Rightarrow> int" where
  "int_wrap v = (v + 2147483648) mod 4294967296 - 2147483648"

definition int_times :: "int \<Rightarrow> int \<Rightarrow> int" where
  "int_times a b = int_wrap (a * b)"

text \<open>
  The declaration of \<^verbatim>\<open>pgaudit.log_rotation_age\<close> in \<^verbatim>\<open>_PG_init\<close>: boot value, minimum
  and maximum, in minutes. The host refuses every setting outside the two bounds.
\<close>

definition rotation_age_boot :: int where
  "rotation_age_boot = HOURS_PER_DAY * MINS_PER_HOUR"

definition rotation_age_min :: int where
  "rotation_age_min = 0"

definition rotation_age_max :: int where
  "rotation_age_max = INT_MAX sdiv SECS_PER_MINUTE"

definition guc_rotation_age_accepts :: "int \<Rightarrow> bool" where
  "guc_rotation_age_accepts v = (rotation_age_min \<le> v \<and> v \<le> rotation_age_max)"

text \<open>
  What stops a backend: the integer remainder with a zero divisor and the use of a
  \<^verbatim>\<open>NULL\<close> pointer (undefined behaviour, a fatal signal on the usual platforms).
\<close>

datatype error = DivisionByZero | NullDereference

subsection \<open>The next rotation time\<close>

text \<open>
  \<^verbatim>\<open>pgauditlogtofile_calculate_next_rotation_time\<close>. \<open>now0\<close> is the reading of
  \<^verbatim>\<open>time(NULL)\<close>, \<open>tm_gmtoff\<close> the offset \<^verbatim>\<open>pg_localtime(&now, log_timezone)\<close> reports for
  it, \<open>rotation_age\<close> the configured interval in minutes. \<open>rotinterval\<close> is an
  \<^verbatim>\<open>int\<close>, the rest is computed in \<^verbatim>\<open>pg_time_t\<close>.
\<close>

definition calculate_next_rotation_time :: "pg_time_t \<Rightarrow> int \<Rightarrow> int \<Rightarrow> error + pg_time_t" where
  "calculate_next_rotation_time now0 tm_gmtoff rotation_age =
     (let rotinterval = int_times rotation_age SECS_PER_MINUTE;
          now1 = now0 + tm_gmtoff
      in if rotinterval = 0 then Inl DivisionByZero
         else
           let now2 = now1 - now1 smod rotinterval;
               now3 = now2 + rotinterval
           in Inr (now3 - tm_gmtoff))"

subsection \<open>Strings and the output buffer\<close>

text \<open>
  A C string is the list of its bytes before the terminating NUL; a \<^verbatim>\<open>char *\<close> that may be
  \<^verbatim>\<open>NULL\<close> is a \<open>string option\<close>, with \<open>None\<close> for \<^verbatim>\<open>NULL\<close>. A \<^verbatim>\<open>StringInfo\<close> is
  the string it holds.
\<close>

definition DQUOTE :: char where
  "DQUOTE = CHR 0x22"

definition COMMA :: char where
  "COMMA = CHR 0x2C"

definition NEWLINE :: char where
  "NEWLINE = CHR 0x0A"

definition appendStringInfoChar :: "string \<Rightarrow> char \<Rightarrow> string" where
  "appendStringInfoChar buf c = buf @ [c]"

definition appendStringInfoString :: "string \<Rightarrow> string \<Rightarrow> string" where
  "appendStringInfoString buf s = buf @ s"

text \<open>
  The loop of \<^verbatim>\<open>pgauditlogtofile_append_csv_literal\<close>: one step for each byte \<open>c\<close> of the
  data, a double quote being appended before \<open>c\<close> when \<open>c\<close> is one.
\<close>

fun csv_literal_loop :: "string \<Rightarrow> string \<Rightarrow> string" where
  "csv_literal_loop buf [] = buf"
| "csv_literal_loop buf (c # p) =
     csv_literal_loop
       (appendStringInfoChar
          (if c = DQUOTE then appendStringInfoChar buf DQUOTE else buf) c) p"

text \<open>\<^verbatim>\<open>pgauditlogtofile_append_csv_literal\<close>: nothing for \<^verbatim>\<open>NULL\<close>.\<close>

definition append_csv_literal :: "string \<Rightarrow> string option \<Rightarrow> string" where
  "append_csv_literal buf data =
     (case data of
        None \<Rightarrow> buf
      | Some p \<Rightarrow>
          appendStringInfoChar (csv_literal_loop (appendStringInfoChar buf DQUOTE) p) DQUOTE)"

text \<open>
  Standard CSV unquoting (RFC 4180), to compare against: a quoted field starts with a
  double quote; inside it two double quotes stand for one, and a single double quote ends
  the field. The result is the field's text and the input that follows the field.
\<close>

fun csv_unquote_body :: "string \<Rightarrow> (string \<times> string) option" where
  "csv_unquote_body [] = None"
| "csv_unquote_body [c] = (if c = DQUOTE then Some ([], []) else None)"
| "csv_unquote_body (c # d # r) =
     (if c = DQUOTE then
        (if d = DQUOTE then
           (case csv_unquote_body r of
              None \<Rightarrow> None
            | Some (t, r') \<Rightarrow> Some (DQUOTE # t, r'))
         else Some ([], d # r))
      else
        (case csv_unquote_body (d # r) of
           None \<Rightarrow> None
         | Some (t, r') \<Rightarrow> Some (c # t, r')))"

definition csv_unquote :: "string \<Rightarrow> (string \<times> string) option" where
  "csv_unquote s =
     (case s of
        [] \<Rightarrow> None
      | c # r \<Rightarrow> if c = DQUOTE then csv_unquote_body r else None)"

subsection \<open>Number formats of printf\<close>

definition digit_char :: "nat \<Rightarrow> char" where
  "digit_char d = ''0123456789abcdef'' ! (d mod 16)"

fun dec_digits :: "nat \<Rightarrow> string" where
  "dec_digits n = (if n < 10 then [digit_char n] else dec_digits (n div 10) @ [digit_char (n mod 10)])"

fun hex_digits :: "nat \<Rightarrow> string" where
  "hex_digits n = (if n < 16 then [digit_char n] else hex_digits (n div 16) @ [digit_char (n mod 16)])"

text \<open>\<^verbatim>\<open>%d\<close> and \<^verbatim>\<open>%ld\<close>.\<close>

definition fmt_d :: "int \<Rightarrow> string" where
  "fmt_d i = (if i < 0 then CHR ''-'' # dec_digits (nat (- i)) else dec_digits (nat i))"

text \<open>\<^verbatim>\<open>%u\<close>, of an unsigned value.\<close>

definition fmt_u :: "nat \<Rightarrow> string" where
  "fmt_u n = dec_digits n"

text \<open>\<^verbatim>\<open>%x\<close> reads its \<^verbatim>\<open>int\<close> argument as \<^verbatim>\<open>unsigned int\<close>, \<^verbatim>\<open>%lx\<close> its \<^verbatim>\<open>long\<close> as \<^verbatim>\<open>unsigned long\<close>.\<close>

definition fmt_x :: "int \<Rightarrow> string" where
  "fmt_x i = hex_digits (nat (i mod 2 ^ 32))"

definition fmt_lx :: "int \<Rightarrow> string" where
  "fmt_lx i = hex_digits (nat (i mod 2 ^ 64))"

text \<open>\<^verbatim>\<open>%03d\<close>: at least three digits, zeros in front.\<close>

definition fmt_03d :: "int \<Rightarrow> string" where
  "fmt_03d i =
     (if i < 0 then CHR ''-'' # replicate (2 - length (dec_digits (nat (- i)))) CHR ''0'' @ dec_digits (nat (- i))
      else replicate (3 - length (dec_digits (nat i))) CHR ''0'' @ dec_digits (nat i))"

subsection \<open>The PostgreSQL backend around the module\<close>

text \<open>The fields of \<^verbatim>\<open>MyProcPort\<close>, \<^verbatim>\<open>MyProc\<close> and \<^verbatim>\<open>ErrorData\<close> that the module reads.
  The field \<^verbatim>\<open>filename\<close> of \<^verbatim>\<open>ErrorData\<close> is \<open>ed_filename\<close> here and its field
  \<^verbatim>\<open>context\<close> is \<open>ed_context\<close>.\<close>

record Port =
  user_name :: "string option"
  database_name :: "string option"
  remote_host :: "string option"
  remote_port :: "string option"

record PGPROC =
  backendId :: int
  lxid :: nat

record ErrorData =
  output_to_server :: bool
  hide_stmt :: bool
  ed_filename :: "string option"
  lineno :: int
  funcname :: "string option"
  sqlerrcode :: int
  message :: "string option"
  detail :: "string option"
  detail_log :: "string option"
  hint :: "string option"
  ed_context :: "string option"
  cursorpos :: int
  internalpos :: int
  internalquery :: "string option"

definition InvalidBackendId :: int where
  "InvalidBackendId = - 1"

definition PGERROR_VERBOSE :: int where
  "PGERROR_VERBOSE = 2"

text \<open>
  The globals and functions of the host that the module uses: the identity of the
  process, what \<^verbatim>\<open>get_ps_display\<close> and \<^verbatim>\<open>GetTopTransactionIdIfAny\<close> give back, the
  character classification of the C library on bytes with the high bit set
  (\<open>lc_isupper\<close>, \<open>lc_tolower\<close>), the offset \<^verbatim>\<open>pg_localtime(&t, log_timezone)->tm_gmtoff\<close>
  of a time \<open>t\<close>, and \<open>pg_strftime n fmt t\<close>, the string that
  \<^verbatim>\<open>pg_strftime(buf, n, fmt, pg_localtime(&t, log_timezone))\<close> leaves in \<open>buf\<close>, with
  its terminator within the \<open>n\<close> bytes.
\<close>

record postgres =
  MyProcPid :: int
  MyProcPort :: "Port option"
  MyStartTime :: pg_time_t
  MyProc :: "PGPROC option"
  ps_display :: string
  TopTransactionIdIfAny :: nat
  debug_query_string :: "string option"
  Log_error_verbosity :: int
  application_name :: "string option"
  unpack_sql_state :: "int \<Rightarrow> string"
  lc_isupper :: "char \<Rightarrow> bool"
  lc_tolower :: "char \<Rightarrow> char"
  tm_gmtoff :: "pg_time_t \<Rightarrow> int"
  pg_strftime :: "nat \<Rightarrow> string \<Rightarrow> pg_time_t \<Rightarrow> string"

text \<open>
  What the operating system answers while one record is handled: the clock read by
  \<^verbatim>\<open>time(NULL)\<close> in \<^verbatim>\<open>pgauditlogtofile_needs_rotate_file\<close> and in
  \<^verbatim>\<open>pgauditlogtofile_calculate_next_rotation_time\<close>, whether \<^verbatim>\<open>fopen\<close> gives a stream,
  the count \<^verbatim>\<open>fwrite\<close> returns, and the two fields \<^verbatim>\<open>gettimeofday\<close> fills.
\<close>

record os_results =
  time_check :: pg_time_t
  time_calc :: pg_time_t
  fopen_ok :: bool
  fwrite_rc :: int
  tv_sec :: int
  tv_usec :: int

subsection \<open>The state of the module\<close>

text \<open>The structure in shared memory; its lock is not a field (a section under the lock
  is one step).\<close>

record pgAuditLogToFileShm =
  filename :: string
  force_rotation :: bool
  next_rotation_time :: pg_time_t

text \<open>The GUC variables.\<close>

record gucs =
  guc_pgaudit_log_directory :: "string option"
  guc_pgaudit_log_filename :: "string option"
  guc_pgaudit_log_rotation_age :: int

text \<open>The two warnings the module sends to \<^verbatim>\<open>ereport\<close>, with the file name they print.\<close>

datatype diagnostic = Could_not_open_log_file string | Could_not_write_audit_log_file string

definition FORMATTED_TS_LEN :: nat where
  "FORMATTED_TS_LEN = 128"

text \<open>
  The static variables of one backend: \<open>file_handler\<close> is \<open>None\<close> for \<^verbatim>\<open>NULL\<close> and
  otherwise holds the name the stream was opened with. \<open>formatted_start_time\<close> is the C
  string in the array of that name (nothing is ever written behind its end);
  \<open>formatted_log_time\<close> is the array itself, all its \<^verbatim>\<open>FORMATTED_TS_LEN\<close> bytes, because
  the milliseconds are written at a fixed position of it. The last three fields record
  what the backend has done so far: the warnings reported, the bytes handed to each
  stream that took them, and the records passed on to the previous hook.
\<close>

record backend =
  file_handler :: "string option"
  filename_in_use :: string
  log_line_number :: int
  log_my_pid :: int
  formatted_start_time :: string
  formatted_log_time :: string
  reports :: "diagnostic list"
  written :: "(string \<times> string) list"
  forwarded :: "ErrorData list"

definition backend_start :: backend where
  "backend_start =
     \<lparr>file_handler = None, filename_in_use = [], log_line_number = 0, log_my_pid = 0,
      formatted_start_time = [], formatted_log_time = replicate FORMATTED_TS_LEN (CHR 0x00),
      reports = [], written = [], forwarded = []\<rparr>"

definition PGAUDIT_PREFIX_LINE :: string where
  "PGAUDIT_PREFIX_LINE = ''AUDIT: ''"

definition MAXPGPATH :: nat where
  "MAXPGPATH = 1024"

subsection \<open>Comparing without case\<close>

text \<open>
  \<^verbatim>\<open>pg_strcasecmp\<close> and \<^verbatim>\<open>pg_strncasecmp\<close> of the host's port library. A byte from
  \<^verbatim>\<open>A\<close> to \<^verbatim>\<open>Z\<close> is moved to lower case; a byte with the high bit set goes through the
  C library when it is upper case there. Two bytes are compared after this, the end of a
  string being the byte 0.
\<close>

definition pg_fold :: "postgres \<Rightarrow> char \<Rightarrow> char" where
  "pg_fold pg ch =
     (if 65 \<le> (of_char ch :: nat) \<and> (of_char ch :: nat) \<le> 90 then char_of ((of_char ch :: nat) + 32)
      else if 128 \<le> (of_char ch :: nat) \<and> lc_isupper pg ch then lc_tolower pg ch
      else ch)"

definition fold_diff :: "postgres \<Rightarrow> char \<Rightarrow> char \<Rightarrow> int" where
  "fold_diff pg ch1 ch2 = int (of_char (pg_fold pg ch1)) - int (of_char (pg_fold pg ch2))"

fun pg_strcasecmp :: "postgres \<Rightarrow> string \<Rightarrow> string \<Rightarrow> int" where
  "pg_strcasecmp pg [] [] = 0"
| "pg_strcasecmp pg [] (ch2 # s2) = fold_diff pg (CHR 0x00) ch2"
| "pg_strcasecmp pg (ch1 # s1) [] = fold_diff pg ch1 (CHR 0x00)"
| "pg_strcasecmp pg (ch1 # s1) (ch2 # s2) =
     (if ch1 \<noteq> ch2 \<and> fold_diff pg ch1 ch2 \<noteq> 0 then fold_diff pg ch1 ch2
      else if ch1 = CHR 0x00 then 0
      else pg_strcasecmp pg s1 s2)"

fun pg_strncasecmp :: "postgres \<Rightarrow> string \<Rightarrow> string \<Rightarrow> nat \<Rightarrow> int" where
  "pg_strncasecmp pg s1 s2 0 = 0"
| "pg_strncasecmp pg [] [] (Suc n) = 0"
| "pg_strncasecmp pg [] (ch2 # s2) (Suc n) = fold_diff pg (CHR 0x00) ch2"
| "pg_strncasecmp pg (ch1 # s1) [] (Suc n) = fold_diff pg ch1 (CHR 0x00)"
| "pg_strncasecmp pg (ch1 # s1) (ch2 # s2) (Suc n) =
     (if ch1 \<noteq> ch2 \<and> fold_diff pg ch1 ch2 \<noteq> 0 then fold_diff pg ch1 ch2
      else if ch1 = CHR 0x00 then 0
      else pg_strncasecmp pg s1 s2 n)"

subsection \<open>Formatting one audit line\<close>

text \<open>
  Strings in arrays of bytes. \<open>c_string\<close> is the string an array holds: its bytes up to
  the first zero byte. \<open>strftime_into bytes s\<close> is the array after \<^verbatim>\<open>pg_strftime\<close>
  has left the string \<open>s\<close> and its terminator at the front; \<open>strncpy_at bytes off src n\<close>
  is the array after \<^verbatim>\<open>strncpy(bytes + off, src, n)\<close>, which copies \<open>n\<close> bytes of \<open>src\<close>
  (zero bytes when \<open>src\<close> is shorter) and adds no terminator. Both leave every other
  byte as it was.
\<close>

definition c_string :: "string \<Rightarrow> string" where
  "c_string bytes = takeWhile (\<lambda>ch. ch \<noteq> CHR 0x00) bytes"

definition strftime_into :: "string \<Rightarrow> string \<Rightarrow> string" where
  "strftime_into bytes s = s @ CHR 0x00 # drop (length s + 1) bytes"

definition strncpy_at :: "string \<Rightarrow> nat \<Rightarrow> string \<Rightarrow> nat \<Rightarrow> string" where
  "strncpy_at bytes off src n =
     take off bytes @ take n (src @ replicate n (CHR 0x00)) @ drop (off + n) bytes"

text \<open>
  \<^verbatim>\<open>pgauditlogtofile_format_log_time\<close>, from the array \<^verbatim>\<open>formatted_log_time\<close> before
  the call to the array after it. The milliseconds go to the bytes 19 to 22, over the
  blanks that the pattern leaves there when it renders 19 characters of date and time,
  five blanks and the zone. When the host renders fewer than 19 bytes they land behind
  the terminator and the string is the one the host rendered.
\<close>

definition format_log_time :: "postgres \<Rightarrow> os_results \<Rightarrow> string \<Rightarrow> string" where
  "format_log_time pg os bytes0 =
     (let stamp_time = tv_sec os;
          bytes = strftime_into bytes0
                    (pg_strftime pg FORMATTED_TS_LEN ''%Y-%m-%d %H:%M:%S     %Z'' stamp_time);
          msbuf = CHR ''.'' # fmt_03d (tv_usec os sdiv 1000)
      in strncpy_at bytes 19 msbuf 4)"

text \<open>\<^verbatim>\<open>pgauditlogtofile_format_start_time\<close>.\<close>

definition format_start_time :: "postgres \<Rightarrow> string" where
  "format_start_time pg =
     (let stamp_time = MyStartTime pg
      in pg_strftime pg FORMATTED_TS_LEN ''%Y-%m-%d %H:%M:%S %Z'' stamp_time)"

text \<open>
  The head of \<^verbatim>\<open>pgauditlogtofile_format_audit_line\<close>: the static line counter, the
  process it counts for, and the cached session start, which is formatted when empty.
\<close>

definition count_line :: "postgres \<Rightarrow> backend \<Rightarrow> backend" where
  "count_line pg b =
     (let b1 = (if log_my_pid b \<noteq> MyProcPid pg
                then b\<lparr>log_line_number := 0, log_my_pid := MyProcPid pg, formatted_start_time := []\<rparr>
                else b)
      in b1\<lparr>log_line_number := log_line_number b1 + 1\<rparr>)"

definition cache_start_time :: "postgres \<Rightarrow> backend \<Rightarrow> backend" where
  "cache_start_time pg b =
     (if formatted_start_time b = [] then b\<lparr>formatted_start_time := format_start_time pg\<rparr> else b)"

text \<open>The blocks of \<^verbatim>\<open>pgauditlogtofile_format_audit_line\<close>, one for each field, in the
  order of the source. Each takes the buffer and returns it with the field appended.\<close>

definition put_username :: "postgres \<Rightarrow> string \<Rightarrow> string" where
  "put_username pg buf =
     (case MyProcPort pg of Some port \<Rightarrow> append_csv_literal buf (user_name port) | None \<Rightarrow> buf)"

definition put_database_name :: "postgres \<Rightarrow> string \<Rightarrow> string" where
  "put_database_name pg buf =
     (case MyProcPort pg of Some port \<Rightarrow> append_csv_literal buf (database_name port) | None \<Rightarrow> buf)"

definition put_pid :: "postgres \<Rightarrow> string \<Rightarrow> string" where
  "put_pid pg buf =
     (if MyProcPid pg \<noteq> 0 then appendStringInfoString buf (fmt_d (MyProcPid pg)) else buf)"

definition put_remote :: "postgres \<Rightarrow> string \<Rightarrow> string" where
  "put_remote pg buf =
     (case MyProcPort pg of
        None \<Rightarrow> buf
      | Some port \<Rightarrow>
          (case remote_host port of
             None \<Rightarrow> buf
           | Some host \<Rightarrow>
               (let buf1 = appendStringInfoString (appendStringInfoChar buf DQUOTE) host;
                    buf2 = (case remote_port port of
                              None \<Rightarrow> buf1
                            | Some rport \<Rightarrow>
                                if rport \<noteq> [] then appendStringInfoString (appendStringInfoChar buf1 CHR '':'') rport
                                else buf1)
                in appendStringInfoChar buf2 DQUOTE)))"

definition put_session_id :: "postgres \<Rightarrow> string \<Rightarrow> string" where
  "put_session_id pg buf =
     appendStringInfoString buf (fmt_lx (MyStartTime pg) @ ''.'' @ fmt_x (MyProcPid pg))"

definition put_line_number :: "backend \<Rightarrow> string \<Rightarrow> string" where
  "put_line_number b buf = appendStringInfoString buf (fmt_d (log_line_number b))"

definition put_ps_display :: "postgres \<Rightarrow> string \<Rightarrow> string" where
  "put_ps_display pg buf =
     (case MyProcPort pg of
        Some port \<Rightarrow>
          (let msgbuf = appendStringInfoString [] (ps_display pg)
           in append_csv_literal buf (Some msgbuf))
      | None \<Rightarrow> buf)"

definition put_vxid :: "postgres \<Rightarrow> string \<Rightarrow> string" where
  "put_vxid pg buf =
     (case MyProc pg of
        None \<Rightarrow> buf
      | Some proc \<Rightarrow>
          if backendId proc \<noteq> InvalidBackendId
          then appendStringInfoString buf (fmt_d (backendId proc) @ ''/'' @ fmt_u (lxid proc))
          else buf)"

definition put_detail :: "ErrorData \<Rightarrow> string \<Rightarrow> string" where
  "put_detail edata buf =
     (if detail_log edata \<noteq> None then append_csv_literal buf (detail_log edata)
      else append_csv_literal buf (detail edata))"

definition put_internalpos :: "ErrorData \<Rightarrow> string \<Rightarrow> string" where
  "put_internalpos edata buf =
     (if internalpos edata > 0 \<and> internalquery edata \<noteq> None
      then appendStringInfoString buf (fmt_d (internalpos edata)) else buf)"

definition print_stmt :: "postgres \<Rightarrow> ErrorData \<Rightarrow> bool" where
  "print_stmt pg edata = (debug_query_string pg \<noteq> None \<and> \<not> hide_stmt edata)"

definition put_statement :: "postgres \<Rightarrow> ErrorData \<Rightarrow> string \<Rightarrow> string" where
  "put_statement pg edata buf =
     (if print_stmt pg edata then append_csv_literal buf (debug_query_string pg) else buf)"

definition put_cursorpos :: "postgres \<Rightarrow> ErrorData \<Rightarrow> string \<Rightarrow> string" where
  "put_cursorpos pg edata buf =
     (if print_stmt pg edata \<and> cursorpos edata > 0
      then appendStringInfoString buf (fmt_d (cursorpos edata)) else buf)"

definition put_location :: "postgres \<Rightarrow> ErrorData \<Rightarrow> string \<Rightarrow> string" where
  "put_location pg edata buf =
     (if Log_error_verbosity pg \<ge> PGERROR_VERBOSE then
        (let msgbuf =
               (case ed_filename edata of
                  None \<Rightarrow> []
                | Some file \<Rightarrow>
                    (case funcname edata of
                       Some func \<Rightarrow>
                         appendStringInfoString [] (func @ '', '' @ file @ '':'' @ fmt_d (lineno edata))
                     | None \<Rightarrow> appendStringInfoString [] (file @ '':'' @ fmt_d (lineno edata))))
         in append_csv_literal buf (Some msgbuf))
      else buf)"

definition put_application_name :: "postgres \<Rightarrow> string \<Rightarrow> string" where
  "put_application_name pg buf =
     (if application_name pg \<noteq> None then append_csv_literal buf (application_name pg) else buf)"

text \<open>\<^verbatim>\<open>pgauditlogtofile_format_audit_line\<close>: the buffer with the line appended, and the
  static variables of the backend after the call.\<close>

definition format_audit_line ::
  "postgres \<Rightarrow> os_results \<Rightarrow> ErrorData \<Rightarrow> backend \<Rightarrow> string \<Rightarrow> string \<times> backend" where
  "format_audit_line pg os edata b0 buf0 =
     (let b = count_line pg b0;
          b = b\<lparr>formatted_log_time := format_log_time pg os (formatted_log_time b)\<rparr>;
          buf = appendStringInfoString buf0 (c_string (formatted_log_time b));
          buf = appendStringInfoChar buf COMMA;
          buf = put_username pg buf;
          buf = appendStringInfoChar buf COMMA;
          buf = put_database_name pg buf;
          buf = appendStringInfoChar buf COMMA;
          buf = put_pid pg buf;
          buf = appendStringInfoChar buf COMMA;
          buf = put_remote pg buf;
          buf = appendStringInfoChar buf COMMA;
          buf = put_session_id pg buf;
          buf = appendStringInfoChar buf COMMA;
          buf = put_line_number b buf;
          buf = appendStringInfoChar buf COMMA;
          buf = put_ps_display pg buf;
          buf = appendStringInfoChar buf COMMA;
          b = cache_start_time pg b;
          buf = appendStringInfoString buf (formatted_start_time b);
          buf = appendStringInfoChar buf COMMA;
          buf = put_vxid pg buf;
          buf = appendStringInfoChar buf COMMA;
          buf = appendStringInfoString buf (fmt_u (TopTransactionIdIfAny pg));
          buf = appendStringInfoChar buf COMMA;
          buf = appendStringInfoString buf (unpack_sql_state pg (sqlerrcode edata));
          buf = appendStringInfoChar buf COMMA;
          buf = append_csv_literal buf (message edata);
          buf = appendStringInfoChar buf COMMA;
          buf = put_detail edata buf;
          buf = appendStringInfoChar buf COMMA;
          buf = append_csv_literal buf (hint edata);
          buf = appendStringInfoChar buf COMMA;
          buf = append_csv_literal buf (internalquery edata);
          buf = appendStringInfoChar buf COMMA;
          buf = put_internalpos edata buf;
          buf = appendStringInfoChar buf COMMA;
          buf = append_csv_literal buf (ed_context edata);
          buf = appendStringInfoChar buf COMMA;
          buf = put_statement pg edata buf;
          buf = appendStringInfoChar buf COMMA;
          buf = put_cursorpos pg edata buf;
          buf = appendStringInfoChar buf COMMA;
          buf = put_location pg edata buf;
          buf = appendStringInfoChar buf COMMA;
          buf = put_application_name pg buf;
          buf = appendStringInfoChar buf NEWLINE
      in (buf, b))"

text \<open>The text of each field, and the fields of a line in their order.\<close>

definition text_of :: "(string \<Rightarrow> string) \<Rightarrow> string" where
  "text_of put = put []"

definition audit_fields :: "postgres \<Rightarrow> os_results \<Rightarrow> ErrorData \<Rightarrow> backend \<Rightarrow> string list" where
  "audit_fields pg os edata b0 =
     (let b = cache_start_time pg (count_line pg b0) in
      [c_string (format_log_time pg os (formatted_log_time b0)),
       put_username pg [],
       put_database_name pg [],
       put_pid pg [],
       put_remote pg [],
       put_session_id pg [],
       put_line_number b [],
       put_ps_display pg [],
       formatted_start_time b,
       put_vxid pg [],
       fmt_u (TopTransactionIdIfAny pg),
       unpack_sql_state pg (sqlerrcode edata),
       append_csv_literal [] (message edata),
       put_detail edata [],
       append_csv_literal [] (hint edata),
       append_csv_literal [] (internalquery edata),
       put_internalpos edata [],
       append_csv_literal [] (ed_context edata),
       put_statement pg edata [],
       put_cursorpos pg edata [],
       put_location pg edata [],
       put_application_name pg []])"

fun join_fields :: "string list \<Rightarrow> string" where
  "join_fields [] = []"
| "join_fields [f] = f"
| "join_fields (f # g # fs) = f @ COMMA # join_fields (g # fs)"

subsection \<open>Shared memory: start-up and forced rotation\<close>

text \<open>
  \<^verbatim>\<open>pgauditlogtofile_shmem_startup\<close>: \<open>found\<close> is the structure already in shared memory,
  if any; a new one comes zeroed from the host.
\<close>

definition shmem_startup ::
  "postgres \<Rightarrow> os_results \<Rightarrow> gucs \<Rightarrow> pgAuditLogToFileShm option \<Rightarrow> error + pgAuditLogToFileShm" where
  "shmem_startup pg os g found =
     (case found of
        Some sh \<Rightarrow> Inr sh
      | None \<Rightarrow>
          (case calculate_next_rotation_time (time_calc os) (tm_gmtoff pg (time_calc os))
                  (guc_pgaudit_log_rotation_age g) of
             Inl e \<Rightarrow> Inl e
           | Inr t \<Rightarrow> Inr \<lparr>filename = [], force_rotation = True, next_rotation_time = t\<rparr>))"

text \<open>\<^verbatim>\<open>guc_assign_directory\<close>, \<^verbatim>\<open>guc_assign_filename\<close> and \<^verbatim>\<open>guc_assign_rotation_age\<close>
  have one body.\<close>

definition guc_assign :: "pgAuditLogToFileShm option \<Rightarrow> pgAuditLogToFileShm option" where
  "guc_assign shm =
     (case shm of
        None \<Rightarrow> None
      | Some sh \<Rightarrow> if \<not> force_rotation sh then Some (sh\<lparr>force_rotation := True\<rparr>) else Some sh)"

text \<open>\<^verbatim>\<open>pgauditlogtofile_is_enabled\<close>.\<close>

definition is_enabled :: "pgAuditLogToFileShm option \<Rightarrow> gucs \<Rightarrow> bool" where
  "is_enabled shm g =
     (case (shm, guc_pgaudit_log_directory g, guc_pgaudit_log_filename g) of
        (Some sh, Some dir, Some pat) \<Rightarrow> \<not> (length dir = 0 \<or> length pat = 0)
      | _ \<Rightarrow> False)"

subsection \<open>Rotation\<close>

text \<open>
  \<^verbatim>\<open>pgauditlogtofile_needs_rotate_file\<close>: the answer and the shared structure after the
  call. The comparison of the two file names is \<^verbatim>\<open>pg_strcasecmp\<close>.
\<close>

definition needs_rotate_file ::
  "postgres \<Rightarrow> os_results \<Rightarrow> gucs \<Rightarrow> pgAuditLogToFileShm \<Rightarrow> backend
     \<Rightarrow> error + (bool \<times> pgAuditLogToFileShm)" where
  "needs_rotate_file pg os g sh b =
     (if force_rotation sh then Inr (True, sh\<lparr>force_rotation := False\<rparr>)
      else if pg_strcasecmp pg (filename_in_use b) (filename sh) \<noteq> 0 then Inr (True, sh)
      else if time_check os \<ge> next_rotation_time sh then
        (case calculate_next_rotation_time (time_calc os) (tm_gmtoff pg (time_calc os))
                (guc_pgaudit_log_rotation_age g) of
           Inl e \<Rightarrow> Inl e
         | Inr t \<Rightarrow> Inr (True, sh\<lparr>next_rotation_time := t\<rparr>))
      else Inr (False, sh))"

text \<open>
  \<^verbatim>\<open>pgauditlogtofile_calculate_filename\<close>. The start of the period is read before the
  lock is taken; the name is stored under the lock. \<open>audit_filename\<close> is the name for a
  start of period: the directory and a slash cut to \<^verbatim>\<open>MAXPGPATH - 1\<close> bytes by
  \<^verbatim>\<open>snprintf\<close>, which prints \<^verbatim>\<open>(null)\<close> for a \<^verbatim>\<open>NULL\<close> directory, then what
  \<^verbatim>\<open>pg_strftime\<close> renders in the room that is left; it reads its pattern, which must
  not be \<^verbatim>\<open>NULL\<close>.
\<close>

definition current_rotation_time :: "gucs \<Rightarrow> pgAuditLogToFileShm \<Rightarrow> pg_time_t" where
  "current_rotation_time g sh =
     next_rotation_time sh - int_times (guc_pgaudit_log_rotation_age g) SECS_PER_MINUTE"

definition audit_filename :: "postgres \<Rightarrow> gucs \<Rightarrow> pg_time_t \<Rightarrow> error + string" where
  "audit_filename pg g crt =
     (let dir = (case guc_pgaudit_log_directory g of None \<Rightarrow> ''(null)'' | Some d \<Rightarrow> d);
          head = take (MAXPGPATH - 1) (dir @ ''/'');
          len = length head
      in case guc_pgaudit_log_filename g of
           None \<Rightarrow> Inl NullDereference
         | Some pat \<Rightarrow> Inr (head @ pg_strftime pg (MAXPGPATH - len) pat crt))"

definition store_filename ::
  "postgres \<Rightarrow> gucs \<Rightarrow> pg_time_t \<Rightarrow> pgAuditLogToFileShm \<Rightarrow> error + pgAuditLogToFileShm" where
  "store_filename pg g crt sh =
     (case audit_filename pg g crt of
        Inl e \<Rightarrow> Inl e
      | Inr name \<Rightarrow> Inr (sh\<lparr>filename := name\<rparr>))"

definition calculate_filename ::
  "postgres \<Rightarrow> gucs \<Rightarrow> pgAuditLogToFileShm \<Rightarrow> error + pgAuditLogToFileShm" where
  "calculate_filename pg g sh = store_filename pg g (current_rotation_time g sh) sh"

subsection \<open>The file of a backend\<close>

text \<open>\<^verbatim>\<open>pgauditlogtofile_close_file\<close> and \<^verbatim>\<open>pgauditlogtofile_is_open_file\<close>.\<close>

definition close_file :: "backend \<Rightarrow> backend" where
  "close_file b = (if file_handler b \<noteq> None then b\<lparr>file_handler := None\<rparr> else b)"

definition is_open_file :: "backend \<Rightarrow> bool" where
  "is_open_file b = (if file_handler b \<noteq> None then True else False)"

text \<open>
  \<^verbatim>\<open>pgauditlogtofile_open_file\<close>. Making the directory has no effect on the state kept
  here and its failure is ignored by the source.
\<close>

definition open_file :: "os_results \<Rightarrow> pgAuditLogToFileShm \<Rightarrow> backend \<Rightarrow> bool \<times> backend" where
  "open_file os sh b =
     (if fopen_ok os
      then (True, b\<lparr>file_handler := Some (filename sh), filename_in_use := filename sh\<rparr>)
      else (False, b\<lparr>file_handler := None,
                      reports := reports b @ [Could_not_open_log_file (filename sh)]\<rparr>))"

text \<open>
  \<^verbatim>\<open>pgauditlogtofile_write_audit\<close>: the line is formatted, then written to the stream;
  the stream takes the first \<open>rc\<close> bytes, \<open>rc\<close> being what \<^verbatim>\<open>fwrite\<close> returns.
\<close>

definition write_audit ::
  "postgres \<Rightarrow> os_results \<Rightarrow> ErrorData \<Rightarrow> pgAuditLogToFileShm \<Rightarrow> backend \<Rightarrow> error + (bool \<times> backend)" where
  "write_audit pg os edata sh b0 =
     (let (buf, b) = format_audit_line pg os edata b0 [] in
      case file_handler b of
        None \<Rightarrow> Inl NullDereference
      | Some stream \<Rightarrow>
          (let rc = fwrite_rc os;
               b = b\<lparr>written := written b @ [(stream, take (nat rc) buf)]\<rparr>;
               b = (if rc \<noteq> int (length buf)
                    then b\<lparr>reports := reports b @ [Could_not_write_audit_log_file (filename sh)]\<rparr>
                    else b)
           in Inr (rc = int (length buf), b)))"

text \<open>\<^verbatim>\<open>pgauditlogtofile_record_audit\<close>.\<close>

definition record_audit ::
  "postgres \<Rightarrow> os_results \<Rightarrow> gucs \<Rightarrow> ErrorData \<Rightarrow> pgAuditLogToFileShm \<Rightarrow> backend
     \<Rightarrow> error + (bool \<times> pgAuditLogToFileShm \<times> backend)" where
  "record_audit pg os g edata sh0 b0 =
     (case needs_rotate_file pg os g sh0 b0 of
        Inl e \<Rightarrow> Inl e
      | Inr (needs_rotate, sh1) \<Rightarrow>
          (case (if needs_rotate
                 then (case calculate_filename pg g sh1 of
                         Inl e \<Rightarrow> Inl e
                       | Inr sh2 \<Rightarrow> Inr (sh2, close_file b0))
                 else Inr (sh1, b0)) of
             Inl e \<Rightarrow> Inl e
           | Inr (sh, b) \<Rightarrow>
               if \<not> is_open_file b then
                 (case open_file os sh b of
                    (False, b') \<Rightarrow> Inr (False, sh, b')
                  | (True, b') \<Rightarrow>
                      (case write_audit pg os edata sh b' of
                         Inl e \<Rightarrow> Inl e
                       | Inr (ok, b'') \<Rightarrow> Inr (ok, sh, b'')))
               else
                 (case write_audit pg os edata sh b of
                    Inl e \<Rightarrow> Inl e
                  | Inr (ok, b'') \<Rightarrow> Inr (ok, sh, b''))))"

subsection \<open>The hook\<close>

text \<open>
  \<^verbatim>\<open>pgauditlogtofile_emit_log\<close>. \<open>prev\<close> is \<^verbatim>\<open>prev_emit_log_hook\<close>, \<open>None\<close> when there
  is none. The result is the record as the host finds it after the hook: with
  \<open>output_to_server\<close> still set the host writes it to the server log.
\<close>

definition call_prev_emit_log_hook ::
  "(ErrorData \<Rightarrow> ErrorData) option \<Rightarrow> ErrorData \<Rightarrow> backend \<Rightarrow> ErrorData \<times> backend" where
  "call_prev_emit_log_hook prev edata b =
     (case prev of
        None \<Rightarrow> (edata, b)
      | Some hook \<Rightarrow> (hook edata, b\<lparr>forwarded := forwarded b @ [edata]\<rparr>))"

definition emit_log ::
  "postgres \<Rightarrow> os_results \<Rightarrow> gucs \<Rightarrow> (ErrorData \<Rightarrow> ErrorData) option \<Rightarrow> ErrorData
     \<Rightarrow> pgAuditLogToFileShm option \<Rightarrow> backend
     \<Rightarrow> error + (ErrorData \<times> pgAuditLogToFileShm option \<times> backend)" where
  "emit_log pg os g prev edata shm b =
     (case message edata of
        None \<Rightarrow> Inl NullDereference
      | Some msg \<Rightarrow>
          if pg_strncasecmp pg msg PGAUDIT_PREFIX_LINE (length PGAUDIT_PREFIX_LINE) \<noteq> 0 then
            (let (edata', b') = call_prev_emit_log_hook prev edata b in Inr (edata', shm, b'))
          else if \<not> is_enabled shm g then
            (let (edata', b') = call_prev_emit_log_hook prev edata b in Inr (edata', shm, b'))
          else
            (case shm of
               None \<Rightarrow> Inl NullDereference
             | Some sh \<Rightarrow>
                 (case record_audit pg os g edata sh b of
                    Inl e \<Rightarrow> Inl e
                  | Inr (True, sh', b') \<Rightarrow> Inr (edata\<lparr>output_to_server := False\<rparr>, Some sh', b')
                  | Inr (False, sh', b') \<Rightarrow>
                      (let (edata', b'') = call_prev_emit_log_hook prev edata b'
                       in Inr (edata', Some sh', b'')))))"

subsection \<open>Backends side by side\<close>

text \<open>
  Several backends run \<^verbatim>\<open>pgauditlogtofile_record_audit\<close> at once on one shared
  structure. A backend advances in steps; a step is one read of the shared structure
  outside the lock, one section under the lock, or one action on the state of the backend
  alone. The points between the steps, with the lines of the source they stand before:
\<close>

datatype program_point =
    Check_force \<comment> \<open>line 321, the test of \<^verbatim>\<open>force_rotation\<close>\<close>
  | Clear_force \<comment> \<open>lines 322 to 325\<close>
  | Check_filename \<comment> \<open>line 330\<close>
  | Check_deadline \<comment> \<open>line 336\<close>
  | Store_deadline \<comment> \<open>lines 337 to 341\<close>
  | Read_period \<comment> \<open>lines 413 to 415\<close>
  | Store_filename pg_time_t \<comment> \<open>lines 417 to 426, with the local \<^verbatim>\<open>current_rotation_time\<close>\<close>
  | Close_file \<comment> \<open>line 283\<close>
  | Check_open \<comment> \<open>line 286\<close>
  | Open_file \<comment> \<open>line 287\<close>
  | Write_audit \<comment> \<open>line 293\<close>
  | Returned bool \<comment> \<open>\<^verbatim>\<open>pgauditlogtofile_record_audit\<close> has returned this\<close>

text \<open>
  A backend at work on one record: where it stands, its static variables, its globals,
  the answers of the operating system and the record. Two more fields keep what it has
  done: what \<^verbatim>\<open>pgauditlogtofile_needs_rotate_file\<close> returned, once it has, and how many
  times the backend stored a next rotation time.
\<close>

record task =
  pc :: program_point
  own :: backend
  pg_of :: postgres
  os_of :: os_results
  record_of :: ErrorData
  needs_rotate_answer :: "bool option"
  deadline_stores :: nat

definition task_step ::
  "gucs \<Rightarrow> pgAuditLogToFileShm \<Rightarrow> task \<Rightarrow> error + (pgAuditLogToFileShm \<times> task)" where
  "task_step g sh t =
     (case pc t of
        Check_force \<Rightarrow>
          Inr (sh, t\<lparr>pc := (if force_rotation sh then Clear_force else Check_filename)\<rparr>)
      | Clear_force \<Rightarrow>
          Inr (sh\<lparr>force_rotation := False\<rparr>, t\<lparr>pc := Read_period, needs_rotate_answer := Some True\<rparr>)
      | Check_filename \<Rightarrow>
          Inr (sh, if pg_strcasecmp (pg_of t) (filename_in_use (own t)) (filename sh) \<noteq> 0
                   then t\<lparr>pc := Read_period, needs_rotate_answer := Some True\<rparr>
                   else t\<lparr>pc := Check_deadline\<rparr>)
      | Check_deadline \<Rightarrow>
          Inr (sh, if time_check (os_of t) \<ge> next_rotation_time sh
                   then t\<lparr>pc := Store_deadline\<rparr>
                   else t\<lparr>pc := Check_open, needs_rotate_answer := Some False\<rparr>)
      | Store_deadline \<Rightarrow>
          (case calculate_next_rotation_time (time_calc (os_of t))
                  (tm_gmtoff (pg_of t) (time_calc (os_of t))) (guc_pgaudit_log_rotation_age g) of
             Inl e \<Rightarrow> Inl e
           | Inr d \<Rightarrow>
               Inr (sh\<lparr>next_rotation_time := d\<rparr>,
                    t\<lparr>pc := Read_period, needs_rotate_answer := Some True,
                      deadline_stores := deadline_stores t + 1\<rparr>))
      | Read_period \<Rightarrow> Inr (sh, t\<lparr>pc := Store_filename (current_rotation_time g sh)\<rparr>)
      | Store_filename crt \<Rightarrow>
          (case store_filename (pg_of t) g crt sh of
             Inl e \<Rightarrow> Inl e
           | Inr sh' \<Rightarrow> Inr (sh', t\<lparr>pc := Close_file\<rparr>))
      | Close_file \<Rightarrow> Inr (sh, t\<lparr>pc := Check_open, own := close_file (own t)\<rparr>)
      | Check_open \<Rightarrow> Inr (sh, t\<lparr>pc := (if is_open_file (own t) then Write_audit else Open_file)\<rparr>)
      | Open_file \<Rightarrow>
          (case open_file (os_of t) sh (own t) of
             (opened, b) \<Rightarrow> Inr (sh, t\<lparr>pc := (if opened then Write_audit else Returned False), own := b\<rparr>))
      | Write_audit \<Rightarrow>
          (case write_audit (pg_of t) (os_of t) (record_of t) sh (own t) of
             Inl e \<Rightarrow> Inl e
           | Inr (ok, b) \<Rightarrow> Inr (sh, t\<lparr>pc := Returned ok, own := b\<rparr>))
      | Returned r \<Rightarrow> Inr (sh, t))"





text \<open>A backend alone: \<open>n\<close> steps in a row.\<close>

fun task_steps :: "gucs \<Rightarrow> nat \<Rightarrow> pgAuditLogToFileShm \<Rightarrow> task \<Rightarrow> error + (pgAuditLogToFileShm \<times> task)" where
  "task_steps g 0 sh t = Inr (sh, t)"
| "task_steps g (Suc n) sh t =
     (case task_step g sh t of
        Inl e \<Rightarrow> Inl e
      | Inr (sh', t') \<Rightarrow> task_steps g n sh' t')"



subsection \<open>Concrete inputs\<close>

text \<open>
  A backend with process id 4242 and a client connection, on a host in the C locale at
  UTC whose \<^verbatim>\<open>pg_strftime\<close> renders the seconds of the time whatever the pattern; a
  configuration with a rotation age of 60 minutes; an audit record; and the answers of an
  operating system at 00:30 on 1 January 2024 that opens every file and writes every byte
  of a line of 119 bytes.
\<close>

definition pg_example :: postgres where
  "pg_example =
     \<lparr>MyProcPid = 4242,
      MyProcPort = Some \<lparr>user_name = Some ''alice'', database_name = Some ''db'',
                          remote_host = Some ''10.0.0.1'', remote_port = Some ''5432''\<rparr>,
      MyStartTime = 1704067200, MyProc = None,
      ps_display = [], TopTransactionIdIfAny = 0, debug_query_string = None,
      Log_error_verbosity = 1, application_name = None,
      unpack_sql_state = (\<lambda>code. ''00000''),
      lc_isupper = (\<lambda>ch. False), lc_tolower = (\<lambda>ch. ch),
      tm_gmtoff = (\<lambda>t. 0),
      pg_strftime = (\<lambda>n fmt t. take (n - 1) (fmt_d t))\<rparr>"

definition gucs_example :: gucs where
  "gucs_example =
     \<lparr>guc_pgaudit_log_directory = Some ''log'', guc_pgaudit_log_filename = Some ''audit-%s'',
      guc_pgaudit_log_rotation_age = 60\<rparr>"

definition edata_example :: ErrorData where
  "edata_example =
     \<lparr>output_to_server = True, hide_stmt = False, ed_filename = None, lineno = 0,
      funcname = None, sqlerrcode = 0, message = Some ''AUDIT: SESSION,1,1,READ'',
      detail = None, detail_log = None, hint = None, ed_context = None, cursorpos = 0,
      internalpos = 0, internalquery = None\<rparr>"

definition os_example :: os_results where
  "os_example =
     \<lparr>time_check = 1704069000, time_calc = 1704069000, fopen_ok = True, fwrite_rc = 119,
      tv_sec = 1704069000, tv_usec = 250000\<rparr>"



section \<open>Properties\<close>

subsection \<open>Truncating remainder\<close>

lemma smod_nonneg: "0 \<le> a \<Longrightarrow> 0 < b \<Longrightarrow> (a::int) smod b = a mod b"
  by (simp add: smod_int_alt_def sgn_if)

lemma smod_aligned: "((a::int) - a smod b) mod b = 0"
  by (simp add: minus_smod_eq_sdiv_mult)

lemma smod_dvd: "b dvd a \<Longrightarrow> (a::int) smod b = 0"
  by (auto simp add: smod_int_alt_def sgn_if)

lemma smod_less:
  assumes "0 < b"
  shows "(a::int) smod b < b"
proof (cases "0 \<le> a")
  case True
  with assms show ?thesis by (simp add: smod_nonneg)
next
  case False
  then have "a smod b = - (\<bar>a\<bar> mod b)"
    using assms by (simp add: smod_int_alt_def sgn_if)
  moreover have "0 \<le> \<bar>a\<bar> mod b"
    using assms by simp
  ultimately show ?thesis
    using assms by linarith
qed

lemma window_floor:
  assumes "b dvd d" and "0 < b" and "d \<le> x" and "x < d + b"
  shows "x - x mod b = (d::int)"
proof -
  from assms(1) obtain k where k: "d = b * k" ..
  have "x = (x - d) + k * b"
    using k by (simp add: mult.commute)
  then have "x mod b = (x - d) mod b"
    by (metis mod_mult_self1)
  also have "\<dots> = x - d"
    using assms by simp
  finally show ?thesis by simp
qed

lemma rotinterval_fits_int:
  "guc_rotation_age_accepts v \<Longrightarrow> 0 \<le> v * SECS_PER_MINUTE \<and> v * SECS_PER_MINUTE \<le> INT_MAX"
  by (simp add: guc_rotation_age_accepts_def rotation_age_min_def rotation_age_max_def
      INT_MAX_def SECS_PER_MINUTE_def signed_divide_int_def)

lemma int_wrap_id: "- 2147483648 \<le> v \<Longrightarrow> v \<le> INT_MAX \<Longrightarrow> int_wrap v = v"
  by (simp add: int_wrap_def INT_MAX_def)

lemma int_times_accepted:
  assumes "guc_rotation_age_accepts v"
  shows "int_times v SECS_PER_MINUTE = v * 60"
proof -
  have "0 \<le> v * SECS_PER_MINUTE \<and> v * SECS_PER_MINUTE \<le> INT_MAX"
    using assms by (rule rotinterval_fits_int)
  then have "int_wrap (v * SECS_PER_MINUTE) = v * SECS_PER_MINUTE"
    by (intro int_wrap_id) simp_all
  then show ?thesis
    by (simp add: int_times_def SECS_PER_MINUTE_def)
qed

lemma int_times_hour: "int_times 60 SECS_PER_MINUTE = 3600"
  by (simp add: int_times_def int_wrap_def SECS_PER_MINUTE_def)

lemma guc_accepts_hour: "guc_rotation_age_accepts 60"
  by (simp add: guc_rotation_age_accepts_def rotation_age_min_def rotation_age_max_def
      INT_MAX_def SECS_PER_MINUTE_def signed_divide_int_def)

text \<open>
  Beyond the bound of the configuration layer the product is no longer the product of the
  integers: one minute more than the bound gives a negative interval, and \<open>2 ^ 30\<close>
  minutes give the interval 0.
\<close>

lemma int_times_wraps:
  "rotation_age_max = 35791394
   \<and> int_times 35791394 SECS_PER_MINUTE = 2147483640
   \<and> int_times 35791395 SECS_PER_MINUTE = - 2147483596
   \<and> int_times 1073741824 SECS_PER_MINUTE = 0
   \<and> calculate_next_rotation_time now0 tz 1073741824 = Inl DivisionByZero"
  by (simp add: calculate_next_rotation_time_def int_times_def int_wrap_def SECS_PER_MINUTE_def
      rotation_age_max_def INT_MAX_def signed_divide_int_def)

lemma calc_Inr:
  "0 < m \<Longrightarrow> guc_rotation_age_accepts m \<Longrightarrow>
   calculate_next_rotation_time now0 tz m =
     Inr (((now0 + tz) - ((now0 + tz) smod (m * 60)) + m * 60) - tz)"
  by (simp add: calculate_next_rotation_time_def int_times_accepted Let_def)

lemma calc_Inr_hour:
  "calculate_next_rotation_time now0 tz 60 =
     Inr (((now0 + tz) - ((now0 + tz) smod 3600) + 3600) - tz)"
  using calc_Inr [OF _ guc_accepts_hour, of now0 tz] by simp

lemma calc_after_now:
  assumes "0 < m" and "guc_rotation_age_accepts m"
    and "calculate_next_rotation_time now0 tz m = Inr d"
  shows "now0 < d"
proof -
  have "(now0 + tz) smod (m * 60) < m * 60"
    using assms(1) by (intro smod_less) simp
  with assms show ?thesis
    by (simp add: calc_Inr)
qed

subsection \<open>Claims about the rotation deadline\<close>

text \<open>
  Claim C2. For every clock reading, time-zone offset and rotation interval of \<open>m > 0\<close>
  minutes that the configuration layer accepts, the next rotation time is the clock reading shifted by the offset, cut back to
  a multiple of \<open>m * 60\<close> seconds, advanced by one interval and shifted back. The
  remainder is the one of C (\<open>smod\<close>); from the epoch on (in local time) it is the
  mathematical \<open>mod\<close>. With a 60-minute interval the deadline is at the top of an hour
  of local time, the deadline computed at a deadline is exactly 3600 seconds later, and so
  is the one computed at any moment of the hour that starts at a deadline.
\<close>

theorem calculate_next_rotation_time_deadline:
  assumes "0 < m" and "guc_rotation_age_accepts m"
  shows "calculate_next_rotation_time now0 tz m =
           Inr (((now0 + tz) - ((now0 + tz) smod (m * 60)) + m * 60) - tz)
       \<and> (0 \<le> now0 + tz \<longrightarrow>
            calculate_next_rotation_time now0 tz m =
              Inr (((now0 + tz) - ((now0 + tz) mod (m * 60)) + m * 60) - tz))
       \<and> (\<exists>d. calculate_next_rotation_time now0 tz 60 = Inr d
              \<and> (d + tz) mod 3600 = 0
              \<and> calculate_next_rotation_time d tz 60 = Inr (d + 3600)
              \<and> (0 \<le> d + tz \<longrightarrow>
                   (\<forall>t. d \<le> t \<and> t < d + 3600 \<longrightarrow>
                        calculate_next_rotation_time t tz 60 = Inr (d + 3600))))"
proof (intro conjI impI)
  show f: "calculate_next_rotation_time now0 tz m =
           Inr (((now0 + tz) - ((now0 + tz) smod (m * 60)) + m * 60) - tz)"
    using assms by (simp add: calc_Inr)
  show "calculate_next_rotation_time now0 tz m =
          Inr (((now0 + tz) - ((now0 + tz) mod (m * 60)) + m * 60) - tz)"
    if "0 \<le> now0 + tz"
    using that assms by (simp add: calc_Inr smod_nonneg)
  define d where "d = ((now0 + tz) - ((now0 + tz) smod 3600) + 3600) - tz"
  have d: "calculate_next_rotation_time now0 tz 60 = Inr d"
    by (simp add: calc_Inr_hour d_def)
  have "d + tz = ((now0 + tz) - (now0 + tz) smod 3600) + 3600"
    by (simp add: d_def)
  then have al: "(d + tz) mod 3600 = 0"
    using smod_aligned [of "now0 + tz" 3600] by (metis mod_add_self2)
  then have dv: "3600 dvd d + tz"
    by presburger
  have nx: "calculate_next_rotation_time d tz 60 = Inr (d + 3600)"
    using smod_dvd [OF dv] by (simp add: calc_Inr_hour)
  have win: "calculate_next_rotation_time t tz 60 = Inr (d + 3600)"
    if "0 \<le> d + tz" and "d \<le> t \<and> t < d + 3600" for t
  proof -
    have "0 \<le> t + tz" using that by linarith
    then have "(t + tz) smod 3600 = (t + tz) mod 3600"
      by (simp add: smod_nonneg)
    moreover have "(t + tz) - (t + tz) mod 3600 = d + tz"
      using that by (intro window_floor [OF dv]) auto
    ultimately show ?thesis
      by (simp add: calc_Inr_hour)
  qed
  show "\<exists>d. calculate_next_rotation_time now0 tz 60 = Inr d
              \<and> (d + tz) mod 3600 = 0
              \<and> calculate_next_rotation_time d tz 60 = Inr (d + 3600)
              \<and> (0 \<le> d + tz \<longrightarrow>
                   (\<forall>t. d \<le> t \<and> t < d + 3600 \<longrightarrow>
                        calculate_next_rotation_time t tz 60 = Inr (d + 3600)))"
  proof (intro exI [of _ d] conjI impI allI)
    show "calculate_next_rotation_time now0 tz 60 = Inr d" by (fact d)
    show "(d + tz) mod 3600 = 0" by (fact al)
    show "calculate_next_rotation_time d tz 60 = Inr (d + 3600)" by (fact nx)
    show "calculate_next_rotation_time t tz 60 = Inr (d + 3600)"
      if "0 \<le> d + tz" and "d \<le> t \<and> t < d + 3600" for t
      using that by (rule win)
  qed
qed

theorem calculate_next_rotation_time_deadline_witness:
  "(0::int) < 60 \<and> guc_rotation_age_accepts 60
   \<and> calculate_next_rotation_time 1704069000 3600 60 = Inr 1704070800
   \<and> (1704070800 + 3600) mod 3600 = (0::int)
   \<and> calculate_next_rotation_time 1704070800 3600 60 = Inr 1704074400
   \<and> calculate_next_rotation_time 1704072000 3600 60 = Inr 1704074400"
  using calculate_next_rotation_time_deadline [OF _ guc_accepts_hour, of 1704069000 3600]
  by (simp add: guc_accepts_hour calculate_next_rotation_time_def int_times_hour
      signed_modulo_int_def)

text \<open>
  Claim C8. The configuration layer accepts a rotation age of 0 minutes, with which the
  computation divides by zero. With every positive rotation age that the configuration
  layer accepts, the interval in seconds is the product \<open>m * 60\<close> itself, within the range
  of \<^verbatim>\<open>int\<close>, the divisor is not zero and the computation returns a time: keeping the
  interval positive is left to whoever sets it.
\<close>

theorem calculate_next_rotation_time_total:
  "guc_rotation_age_accepts 0
   \<and> calculate_next_rotation_time now0 tz 0 = Inl DivisionByZero
   \<and> (0 < m \<and> guc_rotation_age_accepts m \<longrightarrow>
         int_times m SECS_PER_MINUTE = m * 60
         \<and> 0 < int_times m SECS_PER_MINUTE \<and> int_times m SECS_PER_MINUTE \<le> INT_MAX
         \<and> int_times m SECS_PER_MINUTE \<noteq> 0
         \<and> (\<exists>d. calculate_next_rotation_time now0 tz m = Inr d))"
proof (intro conjI impI)
  show "guc_rotation_age_accepts 0"
    by (simp add: guc_rotation_age_accepts_def rotation_age_min_def rotation_age_max_def
        INT_MAX_def SECS_PER_MINUTE_def signed_divide_int_def)
  show "calculate_next_rotation_time now0 tz 0 = Inl DivisionByZero"
    by (simp add: calculate_next_rotation_time_def int_times_def int_wrap_def)
next
  assume m: "0 < m \<and> guc_rotation_age_accepts m"
  then show eq: "int_times m SECS_PER_MINUTE = m * 60"
    by (simp add: int_times_accepted)
  from m show "0 < int_times m SECS_PER_MINUTE"
    by (simp add: eq)
  have "m * 60 \<le> INT_MAX"
    using m rotinterval_fits_int [of m] by (simp add: SECS_PER_MINUTE_def)
  then show "int_times m SECS_PER_MINUTE \<le> INT_MAX"
    by (simp only: eq)
  from m show "int_times m SECS_PER_MINUTE \<noteq> 0"
    by (simp add: eq)
  from m show "\<exists>d. calculate_next_rotation_time now0 tz m = Inr d"
    by (simp add: calc_Inr)
qed

theorem calculate_next_rotation_time_total_witness:
  "guc_rotation_age_accepts 0
   \<and> calculate_next_rotation_time 1704069000 3600 0 = Inl DivisionByZero
   \<and> (0::int) < 1440 \<and> guc_rotation_age_accepts 1440
   \<and> int_times 1440 SECS_PER_MINUTE = 86400
   \<and> calculate_next_rotation_time 1704069000 3600 1440 = Inr 1704150000"
proof -
  have a: "guc_rotation_age_accepts 1440"
    by (simp add: guc_rotation_age_accepts_def rotation_age_min_def rotation_age_max_def
        INT_MAX_def SECS_PER_MINUTE_def signed_divide_int_def)
  have t: "int_times 1440 SECS_PER_MINUTE = 86400"
    by (simp add: int_times_def int_wrap_def SECS_PER_MINUTE_def)
  have c: "calculate_next_rotation_time 1704069000 3600 1440 = Inr 1704150000"
    by (simp add: calculate_next_rotation_time_def t signed_modulo_int_def)
  from calculate_next_rotation_time_total [of 1704069000 3600 1440] a t c
  show ?thesis by simp
qed

subsection \<open>Claims about the CSV literal\<close>

lemma csv_literal_loop_append:
  "csv_literal_loop buf p = buf @ concat (map (\<lambda>c. if c = DQUOTE then [DQUOTE, DQUOTE] else [c]) p)"
  by (induction p arbitrary: buf) (simp_all add: appendStringInfoChar_def)

lemma append_csv_literal_Some:
  "append_csv_literal buf (Some p) =
     buf @ [DQUOTE] @ concat (map (\<lambda>c. if c = DQUOTE then [DQUOTE, DQUOTE] else [c]) p) @ [DQUOTE]"
  by (simp add: append_csv_literal_def csv_literal_loop_append appendStringInfoChar_def)

lemma append_csv_literal_None: "append_csv_literal buf None = buf"
  by (simp add: append_csv_literal_def)

lemma append_csv_literal_buf: "append_csv_literal buf d = buf @ append_csv_literal [] d"
  by (cases d) (simp_all add: append_csv_literal_None append_csv_literal_Some)

lemma csv_unquote_body_escaped:
  "r = [] \<or> hd r \<noteq> DQUOTE \<Longrightarrow>
   csv_unquote_body (concat (map (\<lambda>c. if c = DQUOTE then [DQUOTE, DQUOTE] else [c]) p) @ DQUOTE # r)
     = Some (p, r)"
proof (induction p)
  case Nil
  then show ?case by (cases r) auto
next
  case (Cons c p)
  show ?case
  proof (cases "c = DQUOTE")
    case True
    with Cons show ?thesis by simp
  next
    case False
    obtain d q where "concat (map (\<lambda>c. if c = DQUOTE then [DQUOTE, DQUOTE] else [c]) p) @ DQUOTE # r = d # q"
      by (cases "concat (map (\<lambda>c. if c = DQUOTE then [DQUOTE, DQUOTE] else [c]) p) @ DQUOTE # r") auto
    with Cons False show ?thesis by simp
  qed
qed

lemma csv_unquote_literal:
  "r = [] \<or> hd r \<noteq> DQUOTE \<Longrightarrow> csv_unquote (append_csv_literal [] (Some s) @ r) = Some (s, r)"
  by (simp add: csv_unquote_def append_csv_literal_Some csv_unquote_body_escaped)

text \<open>
  Claim C3. A text field that is present is rendered between two double quotes with every
  double quote of the text doubled; one that is absent (\<^verbatim>\<open>NULL\<close>) adds nothing, so two
  commas follow each other. The text \<^verbatim>\<open>He said "hi", bye\<close> is rendered as
  \<^verbatim>\<open>"He said ""hi"", bye"\<close>. Standard CSV unquoting of the rendered field gives the text
  back, for every text, at the end of the input and in front of a comma.
\<close>

theorem append_csv_literal_roundtrip:
  "append_csv_literal buf None = buf
   \<and> appendStringInfoChar (append_csv_literal (appendStringInfoChar buf COMMA) None) COMMA
       = buf @ [COMMA, COMMA]
   \<and> append_csv_literal buf (Some s)
       = buf @ [DQUOTE] @ concat (map (\<lambda>c. if c = DQUOTE then [DQUOTE, DQUOTE] else [c]) s) @ [DQUOTE]
   \<and> append_csv_literal [] (Some ''He said \"hi\", bye'') = ''\"He said \"\"hi\"\", bye\"''
   \<and> csv_unquote (append_csv_literal [] (Some s)) = Some (s, [])
   \<and> csv_unquote (append_csv_literal [] (Some s) @ COMMA # r) = Some (s, COMMA # r)"
proof (intro conjI)
  show "append_csv_literal buf None = buf"
    by (fact append_csv_literal_None)
  show "appendStringInfoChar (append_csv_literal (appendStringInfoChar buf COMMA) None) COMMA
          = buf @ [COMMA, COMMA]"
    by (simp add: append_csv_literal_None appendStringInfoChar_def)
  show "append_csv_literal buf (Some s)
          = buf @ [DQUOTE] @ concat (map (\<lambda>c. if c = DQUOTE then [DQUOTE, DQUOTE] else [c]) s) @ [DQUOTE]"
    by (fact append_csv_literal_Some)
  show "append_csv_literal [] (Some ''He said \"hi\", bye'') = ''\"He said \"\"hi\"\", bye\"''"
    by (simp add: append_csv_literal_Some DQUOTE_def)
  show "csv_unquote (append_csv_literal [] (Some s)) = Some (s, [])"
    using csv_unquote_literal [of "[]" s] by simp
  show "csv_unquote (append_csv_literal [] (Some s) @ COMMA # r) = Some (s, COMMA # r)"
    using csv_unquote_literal [of "COMMA # r" s] by (simp add: COMMA_def DQUOTE_def)
qed

theorem append_csv_literal_roundtrip_witness:
  "append_csv_literal ''a,'' None = ''a,''
   \<and> append_csv_literal ''a,'' (Some ''x\"y'') = ''a,\"x\"\"y\"''
   \<and> csv_unquote (append_csv_literal [] (Some ''x\"y'')) = Some (''x\"y'', [])
   \<and> csv_unquote (append_csv_literal [] (Some ''x\"y'') @ COMMA # ''z'') = Some (''x\"y'', COMMA # ''z'')"
  using append_csv_literal_roundtrip [of "''a,''" "''x\"y''" "''z''"]
  by (simp add: DQUOTE_def)

subsection \<open>The line and its fields\<close>

text \<open>
  The milliseconds reach the string only when the host has rendered at least 19 bytes.
  After a shorter rendering they stay behind the terminator; after one of 23 bytes or
  more they replace the bytes 19 to 22.
\<close>

lemma c_string_front:
  "CHR 0x00 \<notin> set s \<Longrightarrow> c_string (s @ CHR 0x00 # rest) = s"
  by (induction s) (auto simp add: c_string_def)

lemma format_log_time_short:
  assumes "length s < 19" and "CHR 0x00 \<notin> set s"
  shows "c_string (strncpy_at (strftime_into bytes s) 19 msbuf 4) = s"
proof -
  have "take 19 (strftime_into bytes s) = s @ CHR 0x00 # take (18 - length s) (drop (length s + 1) bytes)"
    using assms(1) by (simp add: strftime_into_def take_Cons')
  then show ?thesis
    using assms(2) by (simp add: strncpy_at_def c_string_front)
qed

lemma format_log_time_pasted:
  assumes "23 \<le> length s" and "CHR 0x00 \<notin> set s" and "4 \<le> length msbuf"
    and "CHR 0x00 \<notin> set (take 4 msbuf)"
  shows "c_string (strncpy_at (strftime_into bytes s) 19 msbuf 4)
           = take 19 s @ take 4 msbuf @ drop 23 s"
proof -
  have t: "take 19 (strftime_into bytes s) = take 19 s"
    using assms(1) by (simp add: strftime_into_def)
  have d: "drop (19 + 4) (strftime_into bytes s) = drop 23 s @ CHR 0x00 # drop (length s + 1) bytes"
    using assms(1) by (simp add: strftime_into_def)
  have m: "take 4 (msbuf @ replicate 4 (CHR 0x00)) = take 4 msbuf"
    using assms(3) by simp
  have "CHR 0x00 \<notin> set (take 19 s @ take 4 msbuf @ drop 23 s)"
    using assms(2,4) by (auto dest: in_set_takeD in_set_dropD)
  then have "c_string ((take 19 s @ take 4 msbuf @ drop 23 s) @ CHR 0x00 # drop (length s + 1) bytes)
      = take 19 s @ take 4 msbuf @ drop 23 s"
    by (rule c_string_front)
  then show ?thesis
    unfolding strncpy_at_def t d m by simp
qed

lemma put_username_buf: "put_username pg buf = buf @ text_of (put_username pg)"
  by (simp add: text_of_def put_username_def append_csv_literal_buf [of buf] split: option.splits)

lemma put_database_name_buf: "put_database_name pg buf = buf @ text_of (put_database_name pg)"
  by (simp add: text_of_def put_database_name_def append_csv_literal_buf [of buf] split: option.splits)

lemma put_pid_buf: "put_pid pg buf = buf @ text_of (put_pid pg)"
  by (simp add: text_of_def put_pid_def appendStringInfoString_def)

lemma put_remote_buf: "put_remote pg buf = buf @ text_of (put_remote pg)"
  by (simp add: text_of_def put_remote_def appendStringInfoString_def appendStringInfoChar_def Let_def
      split: option.splits)

lemma put_session_id_buf: "put_session_id pg buf = buf @ text_of (put_session_id pg)"
  by (simp add: text_of_def put_session_id_def appendStringInfoString_def)

lemma put_line_number_buf: "put_line_number b buf = buf @ text_of (put_line_number b)"
  by (simp add: text_of_def put_line_number_def appendStringInfoString_def)

lemma put_ps_display_buf: "put_ps_display pg buf = buf @ text_of (put_ps_display pg)"
  by (simp add: text_of_def put_ps_display_def append_csv_literal_buf [of buf] Let_def split: option.splits)

lemma put_vxid_buf: "put_vxid pg buf = buf @ text_of (put_vxid pg)"
  by (simp add: text_of_def put_vxid_def appendStringInfoString_def split: option.splits)

lemma put_detail_buf: "put_detail edata buf = buf @ text_of (put_detail edata)"
  by (simp add: text_of_def put_detail_def append_csv_literal_buf [of buf])

lemma put_internalpos_buf: "put_internalpos edata buf = buf @ text_of (put_internalpos edata)"
  by (auto simp add: text_of_def put_internalpos_def appendStringInfoString_def)

lemma put_statement_buf: "put_statement pg edata buf = buf @ text_of (put_statement pg edata)"
  by (simp add: text_of_def put_statement_def append_csv_literal_buf [of buf])

lemma put_cursorpos_buf: "put_cursorpos pg edata buf = buf @ text_of (put_cursorpos pg edata)"
  by (simp add: text_of_def put_cursorpos_def appendStringInfoString_def)

lemma put_location_buf: "put_location pg edata buf = buf @ text_of (put_location pg edata)"
  by (simp add: text_of_def put_location_def append_csv_literal_buf [of buf] Let_def)

lemma put_application_name_buf: "put_application_name pg buf = buf @ text_of (put_application_name pg)"
  by (simp add: text_of_def put_application_name_def append_csv_literal_buf [of buf])

lemma append_csv_literal_text:
  "append_csv_literal (b1 @ b2) d = (b1 @ b2) @ text_of (\<lambda>buf. append_csv_literal buf d)"
  by (simp add: text_of_def append_csv_literal_buf [of "b1 @ b2"])

lemma cache_start_time_line_number [simp]:
  "log_line_number (cache_start_time pg b) = log_line_number b"
  by (simp add: cache_start_time_def)

lemma put_line_number_cache [simp]:
  "put_line_number (cache_start_time pg b) buf = put_line_number b buf"
  by (simp add: text_of_def put_line_number_def)

lemma count_line_log_time [simp]:
  "formatted_log_time (count_line pg b) = formatted_log_time b"
  by (simp add: count_line_def)

lemma cache_start_time_log_time [simp]:
  "formatted_log_time (cache_start_time pg b) = formatted_log_time b"
  by (simp add: cache_start_time_def)

lemma cache_start_time_update_log_time:
  "cache_start_time pg (b\<lparr>formatted_log_time := bytes\<rparr>)
     = (cache_start_time pg b)\<lparr>formatted_log_time := bytes\<rparr>"
  by (simp add: cache_start_time_def)

lemma format_audit_line_state:
  "snd (format_audit_line pg os edata b buf)
     = (cache_start_time pg (count_line pg b))
         \<lparr>formatted_log_time := format_log_time pg os (formatted_log_time b)\<rparr>"
  by (simp add: format_audit_line_def Let_def cache_start_time_update_log_time)

lemma format_audit_line_fields:
  "fst (format_audit_line pg os edata b buf)
     = buf @ join_fields (audit_fields pg os edata b) @ [NEWLINE]"
  by (simp add: format_audit_line_def audit_fields_def Let_def
      put_username_buf [of _ "_ @ _"] put_database_name_buf [of _ "_ @ _"] put_pid_buf [of _ "_ @ _"]
      put_remote_buf [of _ "_ @ _"] put_session_id_buf [of _ "_ @ _"] put_line_number_buf [of _ "_ @ _"]
      put_ps_display_buf [of _ "_ @ _"] put_vxid_buf [of _ "_ @ _"] put_detail_buf [of _ "_ @ _"]
      put_internalpos_buf [of _ "_ @ _"] put_statement_buf [of _ _ "_ @ _"]
      put_cursorpos_buf [of _ _ "_ @ _"] put_location_buf [of _ _ "_ @ _"]
      put_application_name_buf [of _ "_ @ _"] append_csv_literal_text
      appendStringInfoString_def appendStringInfoChar_def)
     (simp add: text_of_def put_line_number_def cache_start_time_update_log_time)

subsection \<open>Claims about the line counter and the source location\<close>

lemma count_line_number:
  "log_line_number (count_line pg b)
     = (if log_my_pid b \<noteq> MyProcPid pg then 1 else log_line_number b + 1)"
  by (simp add: count_line_def)

lemma count_line_pid [simp]: "log_my_pid (count_line pg b) = MyProcPid pg"
  by (simp add: count_line_def)

lemma cache_start_time_pid [simp]: "log_my_pid (cache_start_time pg b) = log_my_pid b"
  by (simp add: cache_start_time_def)

lemma format_audit_line_number:
  "log_line_number (snd (format_audit_line pg os edata b buf))
     = (if log_my_pid b \<noteq> MyProcPid pg then 1 else log_line_number b + 1)"
  by (simp add: format_audit_line_state count_line_number)

lemma format_audit_line_pid [simp]:
  "log_my_pid (snd (format_audit_line pg os edata b buf)) = MyProcPid pg"
  by (simp add: format_audit_line_state)

lemma format_audit_lines_number:
  "recs \<noteq> [] \<Longrightarrow>
   log_my_pid b \<noteq> MyProcPid pg \<or> log_line_number b = 0 \<Longrightarrow>
   log_line_number (foldl (\<lambda>b (os, edata). snd (format_audit_line pg os edata b [])) b recs)
     = int (length recs)
   \<and> log_my_pid (foldl (\<lambda>b (os, edata). snd (format_audit_line pg os edata b [])) b recs)
     = MyProcPid pg"
proof (induction recs rule: rev_induct)
  case Nil
  then show ?case by simp
next
  case (snoc r recs)
  obtain os edata where r: "r = (os, edata)" by (cases r)
  show ?case
  proof (cases "recs = []")
    case True
    with snoc.prems r show ?thesis
      by (auto simp add: format_audit_line_number)
  next
    case False
    with snoc r show ?thesis
      by (simp add: format_audit_line_number)
  qed
qed

text \<open>
  Claim C6. The line counter of a backend starts at 0. Formatting a record sets it to 1
  when the process id differs from the one the counter was kept for and adds 1 to it
  otherwise; the seventh field of the formatted line is the counter after this, so the
  records that a process formats in a row, from the start or from a counter inherited from
  another process, carry 1, 2, 3 and so on. The reset of the counter and the emptying of
  the cached session start happen together, and exactly when the process id differs.
\<close>

theorem log_line_number_counts:
  "log_line_number backend_start = 0
   \<and> log_line_number (snd (format_audit_line pg os edata b buf))
       = (if log_my_pid b \<noteq> MyProcPid pg then 0 else log_line_number b) + 1
   \<and> fst (format_audit_line pg os edata b buf)
       = buf @ join_fields (audit_fields pg os edata b) @ [NEWLINE]
   \<and> audit_fields pg os edata b ! 6
       = fmt_d (log_line_number (snd (format_audit_line pg os edata b buf)))
   \<and> audit_fields pg os edata backend_start ! 6 = ''1''
   \<and> (log_my_pid b = MyProcPid pg \<longrightarrow>
        log_line_number b < log_line_number (snd (format_audit_line pg os edata b buf)))
   \<and> (recs \<noteq> [] \<and> (log_my_pid b \<noteq> MyProcPid pg \<or> b = backend_start) \<longrightarrow>
        log_line_number (foldl (\<lambda>b (os, edata). snd (format_audit_line pg os edata b [])) b recs)
          = int (length recs))
   \<and> count_line pg b
       = (if log_my_pid b \<noteq> MyProcPid pg
          then b\<lparr>log_line_number := 0, log_my_pid := MyProcPid pg, formatted_start_time := []\<rparr>
          else b)\<lparr>log_line_number :=
                    (if log_my_pid b \<noteq> MyProcPid pg then 0 else log_line_number b) + 1\<rparr>"
proof (intro conjI impI)
  show "log_line_number backend_start = 0"
    by (simp add: backend_start_def)
  show "log_line_number (snd (format_audit_line pg os edata b buf))
          = (if log_my_pid b \<noteq> MyProcPid pg then 0 else log_line_number b) + 1"
    by (simp add: format_audit_line_number)
  show "fst (format_audit_line pg os edata b buf)
          = buf @ join_fields (audit_fields pg os edata b) @ [NEWLINE]"
    by (fact format_audit_line_fields)
  show "audit_fields pg os edata b ! 6
          = fmt_d (log_line_number (snd (format_audit_line pg os edata b buf)))"
    by (simp add: audit_fields_def format_audit_line_state put_line_number_def
        appendStringInfoString_def)
  show "audit_fields pg os edata backend_start ! 6 = ''1''"
    by (simp add: audit_fields_def put_line_number_def appendStringInfoString_def
        count_line_number backend_start_def fmt_d_def digit_char_def)
  show "log_line_number b < log_line_number (snd (format_audit_line pg os edata b buf))"
    if "log_my_pid b = MyProcPid pg"
    using that by (simp add: format_audit_line_number)
  show "log_line_number (foldl (\<lambda>b (os, edata). snd (format_audit_line pg os edata b [])) b recs)
          = int (length recs)"
    if "recs \<noteq> [] \<and> (log_my_pid b \<noteq> MyProcPid pg \<or> b = backend_start)"
    using that format_audit_lines_number [of recs b pg]
    by (auto simp add: backend_start_def)
  show "count_line pg b
       = (if log_my_pid b \<noteq> MyProcPid pg
          then b\<lparr>log_line_number := 0, log_my_pid := MyProcPid pg, formatted_start_time := []\<rparr>
          else b)\<lparr>log_line_number :=
                    (if log_my_pid b \<noteq> MyProcPid pg then 0 else log_line_number b) + 1\<rparr>"
    by (simp add: count_line_def)
qed

theorem log_line_number_counts_witness:
  "log_line_number (snd (format_audit_line pg_example os_example edata_example backend_start [])) = 1
   \<and> audit_fields pg_example os_example edata_example backend_start ! 6 = ''1''
   \<and> log_line_number
        (foldl (\<lambda>b (os, edata). snd (format_audit_line pg_example os edata b [])) backend_start
           [(os_example, edata_example), (os_example, edata_example), (os_example, edata_example)])
       = 3"
proof -
  note t = log_line_number_counts [of pg_example os_example edata_example backend_start "[]"
      "[(os_example, edata_example), (os_example, edata_example), (os_example, edata_example)]"]
  have "log_line_number (snd (format_audit_line pg_example os_example edata_example backend_start []))
          = (if log_my_pid backend_start \<noteq> MyProcPid pg_example then 0
             else log_line_number backend_start) + 1"
    using t by blast
  then have a: "log_line_number
      (snd (format_audit_line pg_example os_example edata_example backend_start [])) = 1"
    by (simp add: backend_start_def)
  have b: "audit_fields pg_example os_example edata_example backend_start ! 6 = ''1''"
    using t by blast
  have "[(os_example, edata_example), (os_example, edata_example), (os_example, edata_example)] \<noteq> []
          \<and> (log_my_pid backend_start \<noteq> MyProcPid pg_example \<or> backend_start = backend_start)"
    by simp
  with t have "log_line_number
        (foldl (\<lambda>b (os, edata). snd (format_audit_line pg_example os edata b [])) backend_start
           [(os_example, edata_example), (os_example, edata_example), (os_example, edata_example)])
       = int (length [(os_example, edata_example), (os_example, edata_example),
                      (os_example, edata_example)])"
    by blast
  then have c: "log_line_number
        (foldl (\<lambda>b (os, edata). snd (format_audit_line pg_example os edata b [])) backend_start
           [(os_example, edata_example), (os_example, edata_example), (os_example, edata_example)])
       = 3"
    by simp
  from a b c show ?thesis by blast
qed

lemma put_location_text:
  "put_location pg edata []
     = (if PGERROR_VERBOSE \<le> Log_error_verbosity pg
        then append_csv_literal []
               (Some (case ed_filename edata of
                        None \<Rightarrow> []
                      | Some file \<Rightarrow>
                          (case funcname edata of
                             Some func \<Rightarrow> func @ '', '' @ file @ '':'' @ fmt_d (lineno edata)
                           | None \<Rightarrow> file @ '':'' @ fmt_d (lineno edata))))
        else [])"
  by (simp add: put_location_def appendStringInfoString_def Let_def split: option.splits)

text \<open>
  Claim C10. The source location is the twenty-first of the 22 fields of a line, between
  the comma after the cursor position and the comma before the application name. Below
  the verbosity \<^verbatim>\<open>PGERROR_VERBOSE\<close> nothing stands between the two commas. From that
  verbosity on the field is a quoted literal, and it is two double quotes and nothing
  else when the record has neither function name nor file name.
\<close>

theorem put_location_verbosity:
  "fst (format_audit_line pg os edata b buf)
     = buf @ join_fields (take 20 (audit_fields pg os edata b))
         @ COMMA # put_location pg edata [] @ COMMA # put_application_name pg [] @ [NEWLINE]
   \<and> length (audit_fields pg os edata b) = 22
   \<and> audit_fields pg os edata b ! 20 = put_location pg edata []
   \<and> (Log_error_verbosity pg < PGERROR_VERBOSE \<longrightarrow> put_location pg edata [] = [])
   \<and> (PGERROR_VERBOSE \<le> Log_error_verbosity pg \<longrightarrow>
        (\<exists>txt. put_location pg edata []
                 = [DQUOTE] @ concat (map (\<lambda>c. if c = DQUOTE then [DQUOTE, DQUOTE] else [c]) txt)
                     @ [DQUOTE])
        \<and> (funcname edata = None \<and> ed_filename edata = None \<longrightarrow>
             put_location pg edata [] = [DQUOTE, DQUOTE]))"
proof (intro conjI impI)
  show "fst (format_audit_line pg os edata b buf)
     = buf @ join_fields (take 20 (audit_fields pg os edata b))
         @ COMMA # put_location pg edata [] @ COMMA # put_application_name pg [] @ [NEWLINE]"
    by (simp add: format_audit_line_fields) (simp add: audit_fields_def Let_def)
  show "length (audit_fields pg os edata b) = 22"
    by (simp add: audit_fields_def Let_def)
  show "audit_fields pg os edata b ! 20 = put_location pg edata []"
    by (simp add: audit_fields_def Let_def)
  show "put_location pg edata [] = []" if "Log_error_verbosity pg < PGERROR_VERBOSE"
    using that by (simp add: put_location_text)
  show "\<exists>txt. put_location pg edata []
                 = [DQUOTE] @ concat (map (\<lambda>c. if c = DQUOTE then [DQUOTE, DQUOTE] else [c]) txt)
                     @ [DQUOTE]"
    if "PGERROR_VERBOSE \<le> Log_error_verbosity pg"
    using that by (simp add: put_location_text append_csv_literal_Some) blast
  show "put_location pg edata [] = [DQUOTE, DQUOTE]"
    if "PGERROR_VERBOSE \<le> Log_error_verbosity pg"
      and "funcname edata = None \<and> ed_filename edata = None"
    using that by (simp add: put_location_text append_csv_literal_Some)
qed

theorem put_location_verbosity_witness:
  "Log_error_verbosity pg_example < PGERROR_VERBOSE
   \<and> put_location pg_example edata_example [] = []
   \<and> PGERROR_VERBOSE \<le> Log_error_verbosity (pg_example\<lparr>Log_error_verbosity := 2\<rparr>)
   \<and> funcname edata_example = None \<and> ed_filename edata_example = None
   \<and> put_location (pg_example\<lparr>Log_error_verbosity := 2\<rparr>) edata_example [] = [DQUOTE, DQUOTE]"
proof -
  have lo: "Log_error_verbosity pg_example < PGERROR_VERBOSE"
    by (simp add: pg_example_def PGERROR_VERBOSE_def)
  have hi: "PGERROR_VERBOSE \<le> Log_error_verbosity (pg_example\<lparr>Log_error_verbosity := 2\<rparr>)"
    by (simp add: PGERROR_VERBOSE_def)
  have no: "funcname edata_example = None \<and> ed_filename edata_example = None"
    by (simp add: edata_example_def)
  have a: "put_location pg_example edata_example [] = []"
    using lo put_location_verbosity [of pg_example os_example edata_example backend_start "[]"]
    by blast
  have b: "put_location (pg_example\<lparr>Log_error_verbosity := 2\<rparr>) edata_example [] = [DQUOTE, DQUOTE]"
    using hi no
      put_location_verbosity [of "pg_example\<lparr>Log_error_verbosity := 2\<rparr>" os_example
        edata_example backend_start "[]"]
    by blast
  from lo hi no a b show ?thesis by blast
qed

subsection \<open>The rotation check\<close>

lemma pg_strcasecmp_same: "pg_strcasecmp pg s s = 0"
  by (induction s) simp_all

lemma needs_rotate_file_force:
  "force_rotation sh \<Longrightarrow> needs_rotate_file pg os g sh b = Inr (True, sh\<lparr>force_rotation := False\<rparr>)"
  by (simp add: needs_rotate_file_def)

lemma needs_rotate_file_differs:
  "\<not> force_rotation sh \<Longrightarrow> pg_strcasecmp pg (filename_in_use b) (filename sh) \<noteq> 0 \<Longrightarrow>
   needs_rotate_file pg os g sh b = Inr (True, sh)"
  by (simp add: needs_rotate_file_def)

lemma needs_rotate_file_deadline:
  "\<not> force_rotation sh \<Longrightarrow> pg_strcasecmp pg (filename_in_use b) (filename sh) = 0 \<Longrightarrow>
   next_rotation_time sh \<le> time_check os \<Longrightarrow>
   calculate_next_rotation_time (time_calc os) (tm_gmtoff pg (time_calc os))
     (guc_pgaudit_log_rotation_age g) = Inr d \<Longrightarrow>
   needs_rotate_file pg os g sh b = Inr (True, sh\<lparr>next_rotation_time := d\<rparr>)"
  by (simp add: needs_rotate_file_def)

lemma needs_rotate_file_none:
  "\<not> force_rotation sh \<Longrightarrow> pg_strcasecmp pg (filename_in_use b) (filename sh) = 0 \<Longrightarrow>
   time_check os < next_rotation_time sh \<Longrightarrow>
   needs_rotate_file pg os g sh b = Inr (False, sh)"
  by (simp add: needs_rotate_file_def)

text \<open>
  What the check answers. With a positive rotation age that the configuration layer
  accepts, the check returns, and it returns true if and only if the force flag is set, or
  \<^verbatim>\<open>pg_strcasecmp\<close> tells the file name of the backend from the shared one (which it
  never does for equal names), or the clock has reached the next rotation time. The three
  tests are made in this order and the first that holds ends the check: with the flag set
  the flag is cleared and nothing else changes; with the flag clear and different names
  nothing changes; only with the flag clear and names alike a passed deadline is replaced
  by the newly computed one.
\<close>

lemma needs_rotate_file_answer:
  assumes "0 < guc_pgaudit_log_rotation_age g"
      and "guc_rotation_age_accepts (guc_pgaudit_log_rotation_age g)"
  shows "(\<exists>sh'. needs_rotate_file pg os g sh b = Inr (True, sh'))
           = (force_rotation sh
              \<or> pg_strcasecmp pg (filename_in_use b) (filename sh) \<noteq> 0
              \<or> next_rotation_time sh \<le> time_check os)
       \<and> (needs_rotate_file pg os g sh b = Inr (False, sh))
           = (\<not> (force_rotation sh
                 \<or> pg_strcasecmp pg (filename_in_use b) (filename sh) \<noteq> 0
                 \<or> next_rotation_time sh \<le> time_check os))
       \<and> (filename_in_use b = filename sh \<longrightarrow>
             pg_strcasecmp pg (filename_in_use b) (filename sh) = 0)
       \<and> (force_rotation sh \<longrightarrow>
             needs_rotate_file pg os g sh b = Inr (True, sh\<lparr>force_rotation := False\<rparr>))
       \<and> (\<not> force_rotation sh \<and> pg_strcasecmp pg (filename_in_use b) (filename sh) \<noteq> 0 \<longrightarrow>
             needs_rotate_file pg os g sh b = Inr (True, sh))
       \<and> (\<not> force_rotation sh \<and> pg_strcasecmp pg (filename_in_use b) (filename sh) = 0
            \<and> next_rotation_time sh \<le> time_check os \<longrightarrow>
             (\<exists>d. calculate_next_rotation_time (time_calc os) (tm_gmtoff pg (time_calc os))
                     (guc_pgaudit_log_rotation_age g) = Inr d
                  \<and> needs_rotate_file pg os g sh b = Inr (True, sh\<lparr>next_rotation_time := d\<rparr>)))"
proof -
  from assms obtain d where d:
    "calculate_next_rotation_time (time_calc os) (tm_gmtoff pg (time_calc os))
       (guc_pgaudit_log_rotation_age g) = Inr d"
    by (simp add: calc_Inr)
  show ?thesis
  proof (intro conjI impI)
    show "(\<exists>sh'. needs_rotate_file pg os g sh b = Inr (True, sh'))
           = (force_rotation sh
              \<or> pg_strcasecmp pg (filename_in_use b) (filename sh) \<noteq> 0
              \<or> next_rotation_time sh \<le> time_check os)"
      using d by (auto simp add: needs_rotate_file_def)
    show "(needs_rotate_file pg os g sh b = Inr (False, sh))
           = (\<not> (force_rotation sh
                 \<or> pg_strcasecmp pg (filename_in_use b) (filename sh) \<noteq> 0
                 \<or> next_rotation_time sh \<le> time_check os))"
      using d by (auto simp add: needs_rotate_file_def)
    show "pg_strcasecmp pg (filename_in_use b) (filename sh) = 0"
      if "filename_in_use b = filename sh"
      using that by (simp add: pg_strcasecmp_same)
    show "needs_rotate_file pg os g sh b = Inr (True, sh\<lparr>force_rotation := False\<rparr>)"
      if "force_rotation sh"
      using that by (rule needs_rotate_file_force)
    show "needs_rotate_file pg os g sh b = Inr (True, sh)"
      if "\<not> force_rotation sh \<and> pg_strcasecmp pg (filename_in_use b) (filename sh) \<noteq> 0"
      using that by (simp add: needs_rotate_file_differs)
    show "\<exists>d. calculate_next_rotation_time (time_calc os) (tm_gmtoff pg (time_calc os))
                     (guc_pgaudit_log_rotation_age g) = Inr d
                  \<and> needs_rotate_file pg os g sh b = Inr (True, sh\<lparr>next_rotation_time := d\<rparr>)"
      if "\<not> force_rotation sh \<and> pg_strcasecmp pg (filename_in_use b) (filename sh) = 0
            \<and> next_rotation_time sh \<le> time_check os"
      using that d by (simp add: needs_rotate_file_deadline)
  qed
qed

lemma needs_rotate_file_answer_example:
  "0 < guc_pgaudit_log_rotation_age gucs_example
   \<and> guc_rotation_age_accepts (guc_pgaudit_log_rotation_age gucs_example)
   \<and> needs_rotate_file pg_example os_example gucs_example
        \<lparr>filename = ''log/a'', force_rotation = True, next_rotation_time = 1704067200\<rparr>
        (backend_start\<lparr>filename_in_use := ''log/b''\<rparr>)
       = Inr (True, \<lparr>filename = ''log/a'', force_rotation = False, next_rotation_time = 1704067200\<rparr>)
   \<and> filename_in_use (backend_start\<lparr>filename_in_use := ''log/A''\<rparr>) \<noteq> ''log/a''
   \<and> needs_rotate_file pg_example os_example gucs_example
        \<lparr>filename = ''log/a'', force_rotation = False, next_rotation_time = 1704067200\<rparr>
        (backend_start\<lparr>filename_in_use := ''log/A''\<rparr>)
       = Inr (True, \<lparr>filename = ''log/a'', force_rotation = False, next_rotation_time = 1704070800\<rparr>)"
proof -
  have pos: "0 < guc_pgaudit_log_rotation_age gucs_example"
    by (simp add: gucs_example_def)
  have acc: "guc_rotation_age_accepts (guc_pgaudit_log_rotation_age gucs_example)"
    by (simp add: gucs_example_def guc_accepts_hour)
  note t1 = needs_rotate_file_answer [OF pos acc, of pg_example os_example
      "\<lparr>filename = ''log/a'', force_rotation = True, next_rotation_time = 1704067200\<rparr>"
      "backend_start\<lparr>filename_in_use := ''log/b''\<rparr>"]
  have a: "needs_rotate_file pg_example os_example gucs_example
        \<lparr>filename = ''log/a'', force_rotation = True, next_rotation_time = 1704067200\<rparr>
        (backend_start\<lparr>filename_in_use := ''log/b''\<rparr>)
       = Inr (True, \<lparr>filename = ''log/a'', force_rotation = False, next_rotation_time = 1704067200\<rparr>)"
    using t1 by simp
  note t2 = needs_rotate_file_answer [OF pos acc, of pg_example os_example
      "\<lparr>filename = ''log/a'', force_rotation = False, next_rotation_time = 1704067200\<rparr>"
      "backend_start\<lparr>filename_in_use := ''log/A''\<rparr>"]
  have same: "pg_strcasecmp pg_example ''log/A'' ''log/a'' = 0"
    by (simp add: fold_diff_def pg_fold_def pg_example_def)
  have calc: "calculate_next_rotation_time (time_calc os_example)
       (tm_gmtoff pg_example (time_calc os_example)) (guc_pgaudit_log_rotation_age gucs_example)
      = Inr 1704070800"
    by (simp add: calculate_next_rotation_time_def os_example_def pg_example_def gucs_example_def
        SECS_PER_MINUTE_def int_times_def int_wrap_def signed_modulo_int_def)
  have "\<exists>d. calculate_next_rotation_time (time_calc os_example)
                (tm_gmtoff pg_example (time_calc os_example))
                (guc_pgaudit_log_rotation_age gucs_example) = Inr d
           \<and> needs_rotate_file pg_example os_example gucs_example
                \<lparr>filename = ''log/a'', force_rotation = False, next_rotation_time = 1704067200\<rparr>
                (backend_start\<lparr>filename_in_use := ''log/A''\<rparr>)
               = Inr (True, \<lparr>filename = ''log/a'', force_rotation = False,
                               next_rotation_time = 1704067200\<rparr>\<lparr>next_rotation_time := d\<rparr>)"
    using t2 same by (simp add: os_example_def)
  with calc have b: "needs_rotate_file pg_example os_example gucs_example
        \<lparr>filename = ''log/a'', force_rotation = False, next_rotation_time = 1704067200\<rparr>
        (backend_start\<lparr>filename_in_use := ''log/A''\<rparr>)
       = Inr (True, \<lparr>filename = ''log/a'', force_rotation = False, next_rotation_time = 1704070800\<rparr>)"
    by auto
  have c: "filename_in_use (backend_start\<lparr>filename_in_use := ''log/A''\<rparr>) \<noteq> ''log/a''"
    by simp
  from pos acc a b c show ?thesis by blast
qed

subsection \<open>What one call of the recorder changes\<close>

lemma format_audit_line_frame:
  "file_handler (snd (format_audit_line pg os edata b buf)) = file_handler b
   \<and> filename_in_use (snd (format_audit_line pg os edata b buf)) = filename_in_use b
   \<and> reports (snd (format_audit_line pg os edata b buf)) = reports b
   \<and> written (snd (format_audit_line pg os edata b buf)) = written b
   \<and> forwarded (snd (format_audit_line pg os edata b buf)) = forwarded b"
  by (simp add: format_audit_line_state cache_start_time_def count_line_def Let_def)

lemma write_audit_open:
  assumes "file_handler b = Some stream"
  shows "write_audit pg os edata sh b
     = Inr (fwrite_rc os = int (length (fst (format_audit_line pg os edata b []))),
            (snd (format_audit_line pg os edata b []))
              \<lparr>written := written b
                  @ [(stream, take (nat (fwrite_rc os)) (fst (format_audit_line pg os edata b [])))],
               reports := reports b
                  @ (if fwrite_rc os \<noteq> int (length (fst (format_audit_line pg os edata b [])))
                     then [Could_not_write_audit_log_file (filename sh)] else [])\<rparr>)"
proof -
  obtain buf b1 where f: "format_audit_line pg os edata b [] = (buf, b1)"
    by (cases "format_audit_line pg os edata b []")
  have fr: "file_handler b1 = file_handler b" "reports b1 = reports b" "written b1 = written b"
    using format_audit_line_frame [of pg os edata b "[]"] by (simp_all add: f)
  show ?thesis
    using assms by (simp add: write_audit_def f fr Let_def)
qed

lemma record_audit_unfold:
  assumes "needs_rotate_file pg os g sh0 b0 = Inr (rot, sh1)"
      and "(if rot then calculate_filename pg g sh1 else Inr sh1) = Inr sh"
      and "b = (if rot then close_file b0 else b0)"
  shows "record_audit pg os g edata sh0 b0 =
     (if file_handler b = None then
        (if fopen_ok os then
           (case write_audit pg os edata sh
                   (b\<lparr>file_handler := Some (filename sh), filename_in_use := filename sh\<rparr>) of
              Inl e \<Rightarrow> Inl e
            | Inr (ok, b') \<Rightarrow> Inr (ok, sh, b'))
         else Inr (False, sh, b\<lparr>file_handler := None,
                                 reports := reports b @ [Could_not_open_log_file (filename sh)]\<rparr>))
      else
        (case write_audit pg os edata sh b of
           Inl e \<Rightarrow> Inl e
         | Inr (ok, b') \<Rightarrow> Inr (ok, sh, b')))"
  using assms
  by (cases rot) (auto simp add: record_audit_def is_open_file_def open_file_def split: sum.splits)

lemma close_file_closed [simp]: "file_handler (close_file b) = None"
  by (simp add: close_file_def)

lemma close_file_frame [simp]:
  "filename_in_use (close_file b) = filename_in_use b"
  "log_line_number (close_file b) = log_line_number b"
  "log_my_pid (close_file b) = log_my_pid b"
  "formatted_start_time (close_file b) = formatted_start_time b"
  "formatted_log_time (close_file b) = formatted_log_time b"
  "reports (close_file b) = reports b"
  "written (close_file b) = written b"
  "forwarded (close_file b) = forwarded b"
  by (simp_all add: close_file_def)

lemma needs_rotate_file_True_force:
  "needs_rotate_file pg os g sh b = Inr (True, sh1) \<Longrightarrow> \<not> force_rotation sh1"
  by (auto simp add: needs_rotate_file_def split: if_splits sum.splits)

lemma calculate_filename_Inr:
  "calculate_filename pg g sh1 = Inr sh2 \<Longrightarrow>
   \<exists>name. audit_filename pg g (current_rotation_time g sh1) = Inr name \<and> sh2 = sh1\<lparr>filename := name\<rparr>"
  by (auto simp add: calculate_filename_def store_filename_def split: sum.splits)

lemma record_audit_rotated:
  assumes nr: "needs_rotate_file pg os g sh b = Inr (True, sh1)"
      and ra: "record_audit pg os g edata sh b = Inr (ok, sh2, b2)"
      and op: "file_handler b2 \<noteq> None"
  shows "calculate_filename pg g sh1 = Inr sh2 \<and> fopen_ok os
         \<and> filename_in_use b2 = filename sh2 \<and> file_handler b2 = Some (filename sh2)"
proof -
  from nr ra obtain sh' where cf: "calculate_filename pg g sh1 = Inr sh'"
    by (cases "calculate_filename pg g sh1") (auto simp add: record_audit_def)
  have "(if True then calculate_filename pg g sh1 else Inr sh1) = Inr sh'"
      and "close_file b = (if True then close_file b else b)"
    using cf by simp_all
  note u = record_audit_unfold [OF nr this, of edata, simplified]
  have fo: "fopen_ok os"
  proof (rule ccontr)
    assume "\<not> fopen_ok os"
    with u ra op show False by simp
  qed
  let ?b = "(close_file b)\<lparr>file_handler := Some (filename sh'), filename_in_use := filename sh'\<rparr>"
  have w: "write_audit pg os edata sh' ?b
     = Inr (fwrite_rc os = int (length (fst (format_audit_line pg os edata ?b []))),
            (snd (format_audit_line pg os edata ?b []))
              \<lparr>written := written ?b
                  @ [(filename sh', take (nat (fwrite_rc os)) (fst (format_audit_line pg os edata ?b [])))],
               reports := reports ?b
                  @ (if fwrite_rc os \<noteq> int (length (fst (format_audit_line pg os edata ?b [])))
                     then [Could_not_write_audit_log_file (filename sh')] else [])\<rparr>)"
    by (rule write_audit_open) simp
  from u fo ra w have "sh2 = sh'"
    and "b2 = (snd (format_audit_line pg os edata ?b []))
              \<lparr>written := written ?b
                  @ [(filename sh', take (nat (fwrite_rc os)) (fst (format_audit_line pg os edata ?b [])))],
               reports := reports ?b
                  @ (if fwrite_rc os \<noteq> int (length (fst (format_audit_line pg os edata ?b [])))
                     then [Could_not_write_audit_log_file (filename sh')] else [])\<rparr>"
    by simp_all
  with cf fo show ?thesis
    using format_audit_line_frame [of pg os edata ?b "[]"] by simp
qed

lemma record_audit_no_rotation:
  assumes "needs_rotate_file pg os g sh b = Inr (False, sh)" and "file_handler b = Some stream"
  shows "record_audit pg os g edata sh b
     = Inr (fwrite_rc os = int (length (fst (format_audit_line pg os edata b []))), sh,
            (snd (format_audit_line pg os edata b []))
              \<lparr>written := written b
                  @ [(stream, take (nat (fwrite_rc os)) (fst (format_audit_line pg os edata b [])))],
               reports := reports b
                  @ (if fwrite_rc os \<noteq> int (length (fst (format_audit_line pg os edata b [])))
                     then [Could_not_write_audit_log_file (filename sh)] else [])\<rparr>)"
proof -
  have "(if False then calculate_filename pg g sh else Inr sh) = Inr sh"
    and "b = (if False then close_file b else b)"
    by simp_all
  note u = record_audit_unfold [OF assms(1) this, of edata]
  show ?thesis
    unfolding u using assms(2) by (simp add: write_audit_open [OF assms(2)])
qed

subsection \<open>The concrete inputs, evaluated\<close>

lemma audit_fields_depends:
  assumes "log_line_number b = log_line_number b'" and "log_my_pid b = log_my_pid b'"
      and "formatted_start_time b = formatted_start_time b'"
      and "c_string (format_log_time pg os (formatted_log_time b))
             = c_string (format_log_time pg os (formatted_log_time b'))"
  shows "audit_fields pg os edata b = audit_fields pg os edata b'"
  using assms
  by (simp add: audit_fields_def Let_def put_line_number_def cache_start_time_def count_line_def)

lemma format_audit_line_depends:
  assumes "log_line_number b = log_line_number b'" and "log_my_pid b = log_my_pid b'"
      and "formatted_start_time b = formatted_start_time b'"
      and "c_string (format_log_time pg os (formatted_log_time b))
             = c_string (format_log_time pg os (formatted_log_time b'))"
  shows "fst (format_audit_line pg os edata b buf) = fst (format_audit_line pg os edata b' buf)"
  using audit_fields_depends [OF assms] by (simp add: format_audit_line_fields)

lemma example_fmt_lx: "fmt_lx 1704067200 = ''65920080''"
  by (simp add: fmt_lx_def digit_char_def)

lemma example_fmt_x: "fmt_x 4242 = ''1092''"
  by (simp add: fmt_x_def digit_char_def)

lemma example_fmt_d: "fmt_d 1704069000 = ''1704069000''" "fmt_d 1704067200 = ''1704067200''"
  "fmt_d 4242 = ''4242''" "fmt_d 1 = ''1''" "fmt_u 0 = ''0''" "fmt_d 1704063600 = ''1704063600''"
  by (simp_all add: fmt_d_def fmt_u_def digit_char_def)

lemma example_fmt_03d: "fmt_03d 250 = ''250''"
  by (simp add: fmt_03d_def digit_char_def)

lemma example_strftime:
  "pg_strftime pg_example FORMATTED_TS_LEN fmt 1704069000 = ''1704069000''"
  "pg_strftime pg_example FORMATTED_TS_LEN fmt 1704067200 = ''1704067200''"
  by (simp_all add: pg_example_def FORMATTED_TS_LEN_def example_fmt_d)

lemma example_log_time:
  "c_string (format_log_time pg_example os_example bytes) = ''1704069000''"
proof -
  have t: "tv_sec os_example = 1704069000"
    by (simp add: os_example_def)
  have "c_string (strncpy_at (strftime_into bytes ''1704069000'') 19
          (CHR ''.'' # fmt_03d (tv_usec os_example sdiv 1000)) 4) = ''1704069000''"
    by (rule format_log_time_short) simp_all
  then show ?thesis
    unfolding format_log_time_def Let_def t example_strftime .
qed

lemma example_log_time_bytes:
  "format_log_time pg_example os_example (replicate FORMATTED_TS_LEN (CHR 0x00))
     = ''1704069000'' @ replicate 9 (CHR 0x00) @ ''.250'' @ replicate 105 (CHR 0x00)"
proof -
  have t: "tv_sec os_example = 1704069000"
    by (simp add: os_example_def)
  have m: "CHR ''.'' # fmt_03d (tv_usec os_example sdiv 1000) = ''.250''"
    by (simp add: os_example_def fmt_03d_def digit_char_def signed_divide_int_def)
  have "strncpy_at (strftime_into (replicate 128 (CHR 0x00)) ''1704069000'') 19 ''.250'' 4
     = ''1704069000'' @ replicate 9 (CHR 0x00) @ ''.250'' @ replicate 105 (CHR 0x00)"
    by (simp add: strftime_into_def strncpy_at_def eval_nat_numeral)
  then show ?thesis
    unfolding format_log_time_def Let_def t example_strftime m
    by (simp add: FORMATTED_TS_LEN_def)
qed

lemma example_counted: "cache_start_time pg_example (count_line pg_example backend_start)
   = backend_start\<lparr>log_line_number := 1, log_my_pid := 4242, formatted_start_time := ''1704067200''\<rparr>"
  by (simp add: cache_start_time_def count_line_def backend_start_def format_start_time_def
      pg_example_def FORMATTED_TS_LEN_def example_fmt_d)

lemma example_fields:
  "audit_fields pg_example os_example edata_example backend_start
     = [''1704069000'', ''\"alice\"'', ''\"db\"'', ''4242'', ''\"10.0.0.1:5432\"'',
        ''65920080.1092'', ''1'', ''\"\"'', ''1704067200'', [], ''0'', ''00000'',
        ''\"AUDIT: SESSION,1,1,READ\"'', [], [], [], [], [], [], [], [], []]"
  unfolding audit_fields_def example_counted example_log_time Let_def
  by (simp add: put_username_def put_database_name_def
      put_pid_def put_remote_def put_session_id_def put_line_number_def put_ps_display_def
      put_vxid_def put_detail_def put_internalpos_def put_statement_def put_cursorpos_def
      put_location_def put_application_name_def print_stmt_def append_csv_literal_Some
      append_csv_literal_None
      appendStringInfoChar_def appendStringInfoString_def example_fmt_lx example_fmt_x example_fmt_d
      pg_example_def edata_example_def backend_start_def
      PGERROR_VERBOSE_def DQUOTE_def Let_def)

lemma example_line:
  "fst (format_audit_line pg_example os_example edata_example backend_start [])
     = ''1704069000,\"alice\",\"db\",4242,\"10.0.0.1:5432\",65920080.1092,1,\"\",1704067200,,0,00000,\"AUDIT: SESSION,1,1,READ\",,,,,,,,,\<newline>''"
  by (simp add: format_audit_line_fields example_fields COMMA_def NEWLINE_def)

lemma example_length:
  "length (fst (format_audit_line pg_example os_example edata_example backend_start [])) = 119"
  by (simp add: example_line)

lemma example_calculate_filename:
  "calculate_filename pg_example gucs_example
     \<lparr>filename = name, force_rotation = False, next_rotation_time = 1704067200\<rparr>
     = Inr \<lparr>filename = ''log/1704063600'', force_rotation = False, next_rotation_time = 1704067200\<rparr>"
  by (simp add: calculate_filename_def store_filename_def audit_filename_def
      current_rotation_time_def gucs_example_def pg_example_def SECS_PER_MINUTE_def int_times_def int_wrap_def MAXPGPATH_def
      example_fmt_d Let_def)

lemma example_deadline:
  "calculate_next_rotation_time (time_calc os_example) (tm_gmtoff pg_example (time_calc os_example))
     (guc_pgaudit_log_rotation_age gucs_example) = Inr 1704070800"
  by (simp add: calculate_next_rotation_time_def os_example_def pg_example_def gucs_example_def
      SECS_PER_MINUTE_def int_times_def int_wrap_def signed_modulo_int_def)

lemma example_record_audit:
  "record_audit pg_example os_example gucs_example edata_example
       \<lparr>filename = [], force_rotation = True, next_rotation_time = 1704067200\<rparr> backend_start
     = Inr (True,
            \<lparr>filename = ''log/1704063600'', force_rotation = False, next_rotation_time = 1704067200\<rparr>,
            \<lparr>file_handler = Some ''log/1704063600'', filename_in_use = ''log/1704063600'',
             log_line_number = 1, log_my_pid = 4242, formatted_start_time = ''1704067200'',
             formatted_log_time
               = ''1704069000'' @ replicate 9 (CHR 0x00) @ ''.250'' @ replicate 105 (CHR 0x00),
             reports = [],
             written = [(''log/1704063600'',
               ''1704069000,\"alice\",\"db\",4242,\"10.0.0.1:5432\",65920080.1092,1,\"\",1704067200,,0,00000,\"AUDIT: SESSION,1,1,READ\",,,,,,,,,\<newline>'')],
             forwarded = []\<rparr>)"
proof -
  let ?sh0 = "\<lparr>filename = [], force_rotation = True, next_rotation_time = 1704067200\<rparr>"
  let ?sh1 = "\<lparr>filename = ''log/1704063600'', force_rotation = False, next_rotation_time = 1704067200\<rparr>"
  let ?b = "(close_file backend_start)\<lparr>file_handler := Some (filename ?sh1),
              filename_in_use := filename ?sh1\<rparr>"
  have nr: "needs_rotate_file pg_example os_example gucs_example ?sh0 backend_start
            = Inr (True, ?sh0\<lparr>force_rotation := False\<rparr>)"
    by (simp add: needs_rotate_file_def)
  have cf: "(if True then calculate_filename pg_example gucs_example (?sh0\<lparr>force_rotation := False\<rparr>)
             else Inr (?sh0\<lparr>force_rotation := False\<rparr>)) = Inr ?sh1"
    by (simp add: example_calculate_filename)
  have cl: "close_file backend_start = (if True then close_file backend_start else backend_start)"
    by simp
  have line: "fst (format_audit_line pg_example os_example edata_example ?b [])
     = ''1704069000,\"alice\",\"db\",4242,\"10.0.0.1:5432\",65920080.1092,1,\"\",1704067200,,0,00000,\"AUDIT: SESSION,1,1,READ\",,,,,,,,,\<newline>''"
    using format_audit_line_depends [of ?b backend_start pg_example os_example edata_example "[]"]
    by (simp add: example_line)
  have lt: "format_log_time pg_example os_example (formatted_log_time ?b)
     = ''1704069000'' @ replicate 9 (CHR 0x00) @ ''.250'' @ replicate 105 (CHR 0x00)"
    using example_log_time_bytes by (simp add: backend_start_def)
  have st: "snd (format_audit_line pg_example os_example edata_example ?b [])
     = \<lparr>file_handler = Some ''log/1704063600'', filename_in_use = ''log/1704063600'',
        log_line_number = 1, log_my_pid = 4242, formatted_start_time = ''1704067200'',
        formatted_log_time
          = ''1704069000'' @ replicate 9 (CHR 0x00) @ ''.250'' @ replicate 105 (CHR 0x00),
        reports = [], written = [], forwarded = []\<rparr>"
    unfolding format_audit_line_state lt
    by (simp add: cache_start_time_def count_line_def backend_start_def
        format_start_time_def pg_example_def FORMATTED_TS_LEN_def example_fmt_d close_file_def)
  have fh: "file_handler ?b = Some ''log/1704063600''"
    by simp
  have w: "write_audit pg_example os_example edata_example ?sh1 ?b
     = Inr (True,
            \<lparr>file_handler = Some ''log/1704063600'', filename_in_use = ''log/1704063600'',
             log_line_number = 1, log_my_pid = 4242, formatted_start_time = ''1704067200'',
             formatted_log_time
               = ''1704069000'' @ replicate 9 (CHR 0x00) @ ''.250'' @ replicate 105 (CHR 0x00),
             reports = [],
             written = [(''log/1704063600'',
               ''1704069000,\"alice\",\"db\",4242,\"10.0.0.1:5432\",65920080.1092,1,\"\",1704067200,,0,00000,\"AUDIT: SESSION,1,1,READ\",,,,,,,,,\<newline>'')],
             forwarded = []\<rparr>)"
    unfolding write_audit_open [OF fh] line st
    by (simp add: os_example_def backend_start_def close_file_def)
  show ?thesis
    unfolding record_audit_unfold [OF nr cf cl] w
    by (simp add: os_example_def)
qed

subsection \<open>Claim about file names that differ in the case of letters\<close>

text \<open>
  Claim C1 has the check return true whenever the file name of the backend differs from
  the shared one, and so has the comment of the source at this test (\<^verbatim>\<open>Rotate if the
  global name is different to this backend copy\<close>); the shared name is given to
  \<^verbatim>\<open>fopen\<close> as it is written. The test itself is made by \<^verbatim>\<open>pg_strcasecmp\<close>, which tells
  two names apart only when they differ in more than the case of letters. Here two
  backends write to \<^verbatim>\<open>log/1704067200\<close> when the directory is set to \<^verbatim>\<open>LOG\<close> and the
  configuration is read again, which sets the force flag. The first backend to handle a
  record finds the flag, computes the name \<^verbatim>\<open>LOG/1704067200\<close> and opens that file. The
  second backend then finds the flag clear and the deadline ahead; its file name differs
  from the shared one, yet the check answers false, and its record goes to the file it
  has open, \<^verbatim>\<open>log/1704067200\<close>.
\<close>

theorem needs_rotate_file_ignores_case:
  "guc_assign (Some \<lparr>filename = ''log/1704067200'', force_rotation = False,
                      next_rotation_time = 1704070800\<rparr>)
     = Some \<lparr>filename = ''log/1704067200'', force_rotation = True,
              next_rotation_time = 1704070800\<rparr>
   \<and> \<not> isl (record_audit pg_example os_example
              (gucs_example\<lparr>guc_pgaudit_log_directory := Some ''LOG''\<rparr>) edata_example
              \<lparr>filename = ''log/1704067200'', force_rotation = True,
               next_rotation_time = 1704070800\<rparr>
              (backend_start\<lparr>file_handler := Some ''log/1704067200'',
                             filename_in_use := ''log/1704067200''\<rparr>))
   \<and> fst (snd (projr (record_audit pg_example os_example
              (gucs_example\<lparr>guc_pgaudit_log_directory := Some ''LOG''\<rparr>) edata_example
              \<lparr>filename = ''log/1704067200'', force_rotation = True,
               next_rotation_time = 1704070800\<rparr>
              (backend_start\<lparr>file_handler := Some ''log/1704067200'',
                             filename_in_use := ''log/1704067200''\<rparr>))))
       = \<lparr>filename = ''LOG/1704067200'', force_rotation = False, next_rotation_time = 1704070800\<rparr>
   \<and> file_handler (snd (snd (projr (record_audit pg_example os_example
              (gucs_example\<lparr>guc_pgaudit_log_directory := Some ''LOG''\<rparr>) edata_example
              \<lparr>filename = ''log/1704067200'', force_rotation = True,
               next_rotation_time = 1704070800\<rparr>
              (backend_start\<lparr>file_handler := Some ''log/1704067200'',
                             filename_in_use := ''log/1704067200''\<rparr>)))))
       = Some ''LOG/1704067200''
   \<and> filename_in_use (backend_start\<lparr>file_handler := Some ''log/1704067200'',
                                      filename_in_use := ''log/1704067200''\<rparr>)
       \<noteq> filename \<lparr>filename = ''LOG/1704067200'', force_rotation = False,
                    next_rotation_time = 1704070800\<rparr>
   \<and> needs_rotate_file (pg_example\<lparr>MyProcPid := 4243\<rparr>) os_example
        (gucs_example\<lparr>guc_pgaudit_log_directory := Some ''LOG''\<rparr>)
        \<lparr>filename = ''LOG/1704067200'', force_rotation = False, next_rotation_time = 1704070800\<rparr>
        (backend_start\<lparr>file_handler := Some ''log/1704067200'',
                       filename_in_use := ''log/1704067200''\<rparr>)
       = Inr (False, \<lparr>filename = ''LOG/1704067200'', force_rotation = False,
                       next_rotation_time = 1704070800\<rparr>)
   \<and> \<not> isl (record_audit (pg_example\<lparr>MyProcPid := 4243\<rparr>) os_example
              (gucs_example\<lparr>guc_pgaudit_log_directory := Some ''LOG''\<rparr>) edata_example
              \<lparr>filename = ''LOG/1704067200'', force_rotation = False,
               next_rotation_time = 1704070800\<rparr>
              (backend_start\<lparr>file_handler := Some ''log/1704067200'',
                             filename_in_use := ''log/1704067200''\<rparr>))
   \<and> map fst (written (snd (snd (projr (record_audit (pg_example\<lparr>MyProcPid := 4243\<rparr>) os_example
              (gucs_example\<lparr>guc_pgaudit_log_directory := Some ''LOG''\<rparr>) edata_example
              \<lparr>filename = ''LOG/1704067200'', force_rotation = False,
               next_rotation_time = 1704070800\<rparr>
              (backend_start\<lparr>file_handler := Some ''log/1704067200'',
                             filename_in_use := ''log/1704067200''\<rparr>))))))
       = [''log/1704067200'']"
proof -
  let ?g = "gucs_example\<lparr>guc_pgaudit_log_directory := Some ''LOG''\<rparr>"
  let ?pg2 = "pg_example\<lparr>MyProcPid := 4243\<rparr>"
  let ?sh0 = "\<lparr>filename = ''log/1704067200'', force_rotation = True,
               next_rotation_time = 1704070800\<rparr>"
  let ?sh1 = "\<lparr>filename = ''LOG/1704067200'', force_rotation = False,
               next_rotation_time = 1704070800\<rparr>"
  let ?b = "backend_start\<lparr>file_handler := Some ''log/1704067200'',
                          filename_in_use := ''log/1704067200''\<rparr>"
  let ?bo = "(close_file ?b)\<lparr>file_handler := Some (filename ?sh1),
                               filename_in_use := filename ?sh1\<rparr>"
  have os: "time_check os_example = 1704069000" "fopen_ok os_example"
    by (simp_all add: os_example_def)
  have ga: "guc_assign (Some \<lparr>filename = ''log/1704067200'', force_rotation = False,
                      next_rotation_time = 1704070800\<rparr>) = Some ?sh0"
    by (simp add: guc_assign_def)
  have nr1: "needs_rotate_file pg_example os_example ?g ?sh0 ?b
             = Inr (True, ?sh0\<lparr>force_rotation := False\<rparr>)"
    by (simp add: needs_rotate_file_def)
  have cf1: "(if True then calculate_filename pg_example ?g (?sh0\<lparr>force_rotation := False\<rparr>)
              else Inr (?sh0\<lparr>force_rotation := False\<rparr>)) = Inr ?sh1"
    by (simp add: calculate_filename_def store_filename_def audit_filename_def
        current_rotation_time_def gucs_example_def pg_example_def int_times_hour MAXPGPATH_def
        example_fmt_d Let_def)
  have cl1: "close_file ?b = (if True then close_file ?b else ?b)"
    by simp
  have fh1: "file_handler ?bo = Some ''LOG/1704067200''"
    by simp
  let ?L1 = "fst (format_audit_line pg_example os_example edata_example ?bo [])"
  let ?b1 = "(snd (format_audit_line pg_example os_example edata_example ?bo []))
              \<lparr>written := written ?bo @ [(''LOG/1704067200'', take (nat (fwrite_rc os_example)) ?L1)],
               reports := reports ?bo
                  @ (if fwrite_rc os_example \<noteq> int (length ?L1)
                     then [Could_not_write_audit_log_file (filename ?sh1)] else [])\<rparr>"
  let ?R1 = "record_audit pg_example os_example ?g edata_example ?sh0 ?b"
  have w1: "write_audit pg_example os_example edata_example ?sh1 ?bo
            = Inr (fwrite_rc os_example = int (length ?L1), ?b1)"
    by (rule write_audit_open [OF fh1])
  have r1: "?R1 = Inr (fwrite_rc os_example = int (length ?L1), ?sh1, ?b1)"
    unfolding record_audit_unfold [OF nr1 cf1 cl1] w1
    by (simp add: os)
  have a1: "\<not> isl ?R1"
    by (simp only: r1 sum.disc simp_thms)
  have a2: "fst (snd (projr ?R1)) = ?sh1"
    by (simp only: r1 sum.sel fst_conv snd_conv)
  have "file_handler ?b1 = Some ''LOG/1704067200''"
    using format_audit_line_frame [of pg_example os_example edata_example ?bo "[]"]
    by simp
  then have a3: "file_handler (snd (snd (projr ?R1))) = Some ''LOG/1704067200''"
    by (simp only: r1 sum.sel snd_conv)
  have a4: "filename_in_use ?b \<noteq> filename ?sh1"
    by simp
  have same: "pg_strcasecmp ?pg2 ''log/1704067200'' ''LOG/1704067200'' = 0"
    by (simp add: fold_diff_def pg_fold_def pg_example_def)
  have same: "pg_strcasecmp ?pg2 (filename_in_use ?b) (filename ?sh1) = 0"
    using same by simp
  have nr2: "needs_rotate_file ?pg2 os_example ?g ?sh1 ?b = Inr (False, ?sh1)"
    by (rule needs_rotate_file_none [OF _ same]) (simp_all add: os)
  have fh2: "file_handler ?b = Some ''log/1704067200''"
    by simp
  let ?L2 = "fst (format_audit_line ?pg2 os_example edata_example ?b [])"
  let ?b2 = "(snd (format_audit_line ?pg2 os_example edata_example ?b []))
              \<lparr>written := written ?b @ [(''log/1704067200'', take (nat (fwrite_rc os_example)) ?L2)],
               reports := reports ?b
                  @ (if fwrite_rc os_example \<noteq> int (length ?L2)
                     then [Could_not_write_audit_log_file (filename ?sh1)] else [])\<rparr>"
  let ?R2 = "record_audit ?pg2 os_example ?g edata_example ?sh1 ?b"
  have r2: "?R2 = Inr (fwrite_rc os_example = int (length ?L2), ?sh1, ?b2)"
    by (rule record_audit_no_rotation [OF nr2 fh2])
  have a5: "\<not> isl ?R2"
    by (simp only: r2 sum.disc simp_thms)
  have "map fst (written ?b2) = [''log/1704067200'']"
    by (simp add: backend_start_def)
  then have a6: "map fst (written (snd (snd (projr ?R2)))) = [''log/1704067200'']"
    by (simp only: r2 sum.sel snd_conv)
  from ga a1 a2 a3 a4 nr2 a5 a6 show ?thesis
    by (intro conjI)
qed

subsection \<open>Claims about two checks in a row\<close>

text \<open>
  Claim C5, as stated, fails. The server starts at 23:40; the shared structure is new,
  with the force flag set and the next rotation time at 00:00. The first audit record
  comes at 00:30. The check returns true for the flag, the recorder computes the file
  name, opens the file and writes the line. Nothing else happens, and the check that
  follows at the same clock reading returns true again, now for the deadline that the
  first check did not look at.
\<close>

theorem needs_rotate_file_twice_counterexample:
  "shmem_startup pg_example (os_example\<lparr>time_calc := 1704066000\<rparr>) gucs_example None
     = Inr \<lparr>filename = [], force_rotation = True, next_rotation_time = 1704067200\<rparr>
   \<and> needs_rotate_file pg_example os_example gucs_example
     \<lparr>filename = [], force_rotation = True, next_rotation_time = 1704067200\<rparr> backend_start
     = Inr (True, \<lparr>filename = [], force_rotation = False, next_rotation_time = 1704067200\<rparr>)
   \<and> record_audit pg_example os_example gucs_example edata_example
       \<lparr>filename = [], force_rotation = True, next_rotation_time = 1704067200\<rparr> backend_start
     = Inr (True,
            \<lparr>filename = ''log/1704063600'', force_rotation = False, next_rotation_time = 1704067200\<rparr>,
            \<lparr>file_handler = Some ''log/1704063600'', filename_in_use = ''log/1704063600'',
             log_line_number = 1, log_my_pid = 4242, formatted_start_time = ''1704067200'',
             formatted_log_time
               = ''1704069000'' @ replicate 9 (CHR 0x00) @ ''.250'' @ replicate 105 (CHR 0x00),
             reports = [],
             written = [(''log/1704063600'',
               ''1704069000,\"alice\",\"db\",4242,\"10.0.0.1:5432\",65920080.1092,1,\"\",1704067200,,0,00000,\"AUDIT: SESSION,1,1,READ\",,,,,,,,,\<newline>'')],
             forwarded = []\<rparr>)
   \<and> needs_rotate_file pg_example os_example gucs_example
       \<lparr>filename = ''log/1704063600'', force_rotation = False, next_rotation_time = 1704067200\<rparr>
       \<lparr>file_handler = Some ''log/1704063600'', filename_in_use = ''log/1704063600'',
        log_line_number = 1, log_my_pid = 4242, formatted_start_time = ''1704067200'',
        formatted_log_time
          = ''1704069000'' @ replicate 9 (CHR 0x00) @ ''.250'' @ replicate 105 (CHR 0x00),
        reports = [],
        written = [(''log/1704063600'',
          ''1704069000,\"alice\",\"db\",4242,\"10.0.0.1:5432\",65920080.1092,1,\"\",1704067200,,0,00000,\"AUDIT: SESSION,1,1,READ\",,,,,,,,,\<newline>'')],
        forwarded = []\<rparr>
     = Inr (True, \<lparr>filename = ''log/1704063600'', force_rotation = False,
                    next_rotation_time = 1704070800\<rparr>)"
proof (intro conjI)
  show "shmem_startup pg_example (os_example\<lparr>time_calc := 1704066000\<rparr>) gucs_example None
     = Inr \<lparr>filename = [], force_rotation = True, next_rotation_time = 1704067200\<rparr>"
    by (simp add: shmem_startup_def calculate_next_rotation_time_def pg_example_def
        gucs_example_def int_times_hour signed_modulo_int_def)
  show "needs_rotate_file pg_example os_example gucs_example
     \<lparr>filename = [], force_rotation = True, next_rotation_time = 1704067200\<rparr> backend_start
     = Inr (True, \<lparr>filename = [], force_rotation = False, next_rotation_time = 1704067200\<rparr>)"
    by (simp add: needs_rotate_file_def)
  show "record_audit pg_example os_example gucs_example edata_example
       \<lparr>filename = [], force_rotation = True, next_rotation_time = 1704067200\<rparr> backend_start
     = Inr (True,
            \<lparr>filename = ''log/1704063600'', force_rotation = False, next_rotation_time = 1704067200\<rparr>,
            \<lparr>file_handler = Some ''log/1704063600'', filename_in_use = ''log/1704063600'',
             log_line_number = 1, log_my_pid = 4242, formatted_start_time = ''1704067200'',
             formatted_log_time
               = ''1704069000'' @ replicate 9 (CHR 0x00) @ ''.250'' @ replicate 105 (CHR 0x00),
             reports = [],
             written = [(''log/1704063600'',
               ''1704069000,\"alice\",\"db\",4242,\"10.0.0.1:5432\",65920080.1092,1,\"\",1704067200,,0,00000,\"AUDIT: SESSION,1,1,READ\",,,,,,,,,\<newline>'')],
             forwarded = []\<rparr>)"
    by (fact example_record_audit)
  show "needs_rotate_file pg_example os_example gucs_example
       \<lparr>filename = ''log/1704063600'', force_rotation = False, next_rotation_time = 1704067200\<rparr>
       \<lparr>file_handler = Some ''log/1704063600'', filename_in_use = ''log/1704063600'',
        log_line_number = 1, log_my_pid = 4242, formatted_start_time = ''1704067200'',
        formatted_log_time
          = ''1704069000'' @ replicate 9 (CHR 0x00) @ ''.250'' @ replicate 105 (CHR 0x00),
        reports = [],
        written = [(''log/1704063600'',
          ''1704069000,\"alice\",\"db\",4242,\"10.0.0.1:5432\",65920080.1092,1,\"\",1704067200,,0,00000,\"AUDIT: SESSION,1,1,READ\",,,,,,,,,\<newline>'')],
        forwarded = []\<rparr>
     = Inr (True, \<lparr>filename = ''log/1704063600'', force_rotation = False,
                    next_rotation_time = 1704070800\<rparr>)"
    by (simp add: needs_rotate_file_def pg_strcasecmp_same example_deadline)
       (simp add: os_example_def)
qed

text \<open>
  Claim C5, amended. Let the configured rotation age be positive, and let the check return
  true and the recorder go on to compute the file name, close the old file and open the
  new one with success. Then the force flag is clear and the file name of the backend is
  the shared one. If nothing changes the shared structure in between, the next check of
  the backend returns false whenever its clock reading is before the next rotation time
  in shared memory, and true otherwise. After a check that returned true for the deadline
  the next rotation time is later than the clock reading it was computed from, so the
  next check returns false at every clock reading up to that one: at the reading that the
  first check compared, unless the clock went back before the new deadline was computed.
  After a check that returned true for the force flag or for the file name the next
  rotation time is the old one, which may have passed.
\<close>

theorem needs_rotate_file_after_rotation:
  assumes "needs_rotate_file pg os g sh b = Inr (True, sh1)"
      and "record_audit pg os g edata sh b = Inr (ok, sh2, b2)"
      and "file_handler b2 \<noteq> None"
      and "0 < guc_pgaudit_log_rotation_age g"
      and "guc_rotation_age_accepts (guc_pgaudit_log_rotation_age g)"
  shows "\<not> force_rotation sh2 \<and> filename_in_use b2 = filename sh2
       \<and> (time_check os' < next_rotation_time sh2 \<longrightarrow>
             needs_rotate_file pg os' g sh2 b2 = Inr (False, sh2))
       \<and> (next_rotation_time sh2 \<le> time_check os' \<longrightarrow>
             (\<exists>sh3. needs_rotate_file pg os' g sh2 b2 = Inr (True, sh3)))
       \<and> (\<not> force_rotation sh \<and> pg_strcasecmp pg (filename_in_use b) (filename sh) = 0 \<longrightarrow>
             time_calc os < next_rotation_time sh2)
       \<and> (\<not> force_rotation sh \<and> pg_strcasecmp pg (filename_in_use b) (filename sh) = 0
            \<and> time_check os' \<le> time_calc os \<longrightarrow>
             needs_rotate_file pg os' g sh2 b2 = Inr (False, sh2))
       \<and> (\<not> force_rotation sh \<and> pg_strcasecmp pg (filename_in_use b) (filename sh) = 0
            \<and> time_check os \<le> time_calc os \<and> time_check os' = time_check os \<longrightarrow>
             time_check os < next_rotation_time sh2
             \<and> needs_rotate_file pg os' g sh2 b2 = Inr (False, sh2))
       \<and> (force_rotation sh \<or> pg_strcasecmp pg (filename_in_use b) (filename sh) \<noteq> 0 \<longrightarrow>
             next_rotation_time sh2 = next_rotation_time sh)"
proof -
  from record_audit_rotated [OF assms(1,2,3)]
  have cf: "calculate_filename pg g sh1 = Inr sh2" and fn: "filename_in_use b2 = filename sh2"
    by simp_all
  from calculate_filename_Inr [OF cf] obtain name where sh2: "sh2 = sh1\<lparr>filename := name\<rparr>"
    by blast
  have nf: "\<not> force_rotation sh2"
    using needs_rotate_file_True_force [OF assms(1)] by (simp add: sh2)
  have same: "pg_strcasecmp pg (filename_in_use b2) (filename sh2) = 0"
    by (simp add: fn pg_strcasecmp_same)
  from assms(4,5) obtain d where d:
    "calculate_next_rotation_time (time_calc os') (tm_gmtoff pg (time_calc os'))
       (guc_pgaudit_log_rotation_age g) = Inr d"
    by (simp add: calc_Inr)
  have before: "needs_rotate_file pg os' g sh2 b2 = Inr (False, sh2)"
    if "time_check os' < next_rotation_time sh2" for os'
    using that nf same by (simp add: needs_rotate_file_none)
  have later: "time_calc os < next_rotation_time sh2"
    if "\<not> force_rotation sh \<and> pg_strcasecmp pg (filename_in_use b) (filename sh) = 0"
  proof -
    from that assms(1) obtain d0 where
      "calculate_next_rotation_time (time_calc os) (tm_gmtoff pg (time_calc os))
         (guc_pgaudit_log_rotation_age g) = Inr d0" and "sh1 = sh\<lparr>next_rotation_time := d0\<rparr>"
      by (auto simp add: needs_rotate_file_def split: if_splits sum.splits)
    with calc_after_now [OF assms(4,5)] show ?thesis
      by (simp add: sh2)
  qed
  show ?thesis
  proof (intro conjI)
    show "\<not> force_rotation sh2" by (fact nf)
    show "filename_in_use b2 = filename sh2" by (fact fn)
    show "time_check os' < next_rotation_time sh2 \<longrightarrow>
             needs_rotate_file pg os' g sh2 b2 = Inr (False, sh2)"
      using before by blast
    show "next_rotation_time sh2 \<le> time_check os' \<longrightarrow>
             (\<exists>sh3. needs_rotate_file pg os' g sh2 b2 = Inr (True, sh3))"
      using nf same d by (simp add: needs_rotate_file_deadline)
    show "\<not> force_rotation sh \<and> pg_strcasecmp pg (filename_in_use b) (filename sh) = 0 \<longrightarrow>
             time_calc os < next_rotation_time sh2"
      using later by blast
    show "\<not> force_rotation sh \<and> pg_strcasecmp pg (filename_in_use b) (filename sh) = 0
            \<and> time_check os' \<le> time_calc os \<longrightarrow>
             needs_rotate_file pg os' g sh2 b2 = Inr (False, sh2)"
    proof
      assume h: "\<not> force_rotation sh \<and> pg_strcasecmp pg (filename_in_use b) (filename sh) = 0
            \<and> time_check os' \<le> time_calc os"
      with later have "time_check os' < next_rotation_time sh2"
        by linarith
      then show "needs_rotate_file pg os' g sh2 b2 = Inr (False, sh2)"
        by (rule before)
    qed
    show "\<not> force_rotation sh \<and> pg_strcasecmp pg (filename_in_use b) (filename sh) = 0
            \<and> time_check os \<le> time_calc os \<and> time_check os' = time_check os \<longrightarrow>
             time_check os < next_rotation_time sh2
             \<and> needs_rotate_file pg os' g sh2 b2 = Inr (False, sh2)"
    proof
      assume h: "\<not> force_rotation sh \<and> pg_strcasecmp pg (filename_in_use b) (filename sh) = 0
            \<and> time_check os \<le> time_calc os \<and> time_check os' = time_check os"
      with later have lt: "time_check os < next_rotation_time sh2"
        by linarith
      with h have "time_check os' < next_rotation_time sh2"
        by simp
      then have "needs_rotate_file pg os' g sh2 b2 = Inr (False, sh2)"
        by (rule before)
      with lt show "time_check os < next_rotation_time sh2
             \<and> needs_rotate_file pg os' g sh2 b2 = Inr (False, sh2)"
        by blast
    qed
    show "force_rotation sh \<or> pg_strcasecmp pg (filename_in_use b) (filename sh) \<noteq> 0 \<longrightarrow>
             next_rotation_time sh2 = next_rotation_time sh"
      using assms(1) by (auto simp add: needs_rotate_file_def sh2 split: if_splits)
  qed
qed

theorem needs_rotate_file_after_rotation_witness:
  "needs_rotate_file pg_example os_example gucs_example
     \<lparr>filename = ''log/1704063600'', force_rotation = False, next_rotation_time = 1704067200\<rparr>
     (backend_start\<lparr>file_handler := Some ''log/1704063600'',
                    filename_in_use := ''log/1704063600''\<rparr>)
     = Inr (True, \<lparr>filename = ''log/1704063600'', force_rotation = False,
                    next_rotation_time = 1704070800\<rparr>)
   \<and> \<not> isl (record_audit pg_example os_example gucs_example edata_example
        \<lparr>filename = ''log/1704063600'', force_rotation = False, next_rotation_time = 1704067200\<rparr>
        (backend_start\<lparr>file_handler := Some ''log/1704063600'',
                       filename_in_use := ''log/1704063600''\<rparr>))
   \<and> fst (snd (projr (record_audit pg_example os_example gucs_example edata_example
        \<lparr>filename = ''log/1704063600'', force_rotation = False, next_rotation_time = 1704067200\<rparr>
        (backend_start\<lparr>file_handler := Some ''log/1704063600'',
                       filename_in_use := ''log/1704063600''\<rparr>))))
       = \<lparr>filename = ''log/1704067200'', force_rotation = False, next_rotation_time = 1704070800\<rparr>
   \<and> file_handler (snd (snd (projr (record_audit pg_example os_example gucs_example edata_example
        \<lparr>filename = ''log/1704063600'', force_rotation = False, next_rotation_time = 1704067200\<rparr>
        (backend_start\<lparr>file_handler := Some ''log/1704063600'',
                       filename_in_use := ''log/1704063600''\<rparr>)))))
       = Some ''log/1704067200''
   \<and> 0 < guc_pgaudit_log_rotation_age gucs_example
   \<and> guc_rotation_age_accepts (guc_pgaudit_log_rotation_age gucs_example)
   \<and> time_check os_example \<le> time_calc os_example
   \<and> time_check os_example < 1704070800
   \<and> needs_rotate_file pg_example os_example gucs_example
        \<lparr>filename = ''log/1704067200'', force_rotation = False, next_rotation_time = 1704070800\<rparr>
        (snd (snd (projr (record_audit pg_example os_example gucs_example edata_example
           \<lparr>filename = ''log/1704063600'', force_rotation = False,
            next_rotation_time = 1704067200\<rparr>
           (backend_start\<lparr>file_handler := Some ''log/1704063600'',
                          filename_in_use := ''log/1704063600''\<rparr>)))))
       = Inr (False, \<lparr>filename = ''log/1704067200'', force_rotation = False,
                       next_rotation_time = 1704070800\<rparr>)"
proof -
  let ?sh = "\<lparr>filename = ''log/1704063600'', force_rotation = False,
              next_rotation_time = 1704067200\<rparr>"
  let ?sh1 = "\<lparr>filename = ''log/1704063600'', force_rotation = False,
               next_rotation_time = 1704070800\<rparr>"
  let ?sh2 = "\<lparr>filename = ''log/1704067200'', force_rotation = False,
               next_rotation_time = 1704070800\<rparr>"
  let ?b = "backend_start\<lparr>file_handler := Some ''log/1704063600'',
                          filename_in_use := ''log/1704063600''\<rparr>"
  let ?bo = "(close_file ?b)\<lparr>file_handler := Some (filename ?sh2),
                               filename_in_use := filename ?sh2\<rparr>"
  have tc: "time_check os_example = 1704069000" "time_calc os_example = 1704069000"
      "fopen_ok os_example"
    by (simp_all add: os_example_def)
  have same: "\<not> force_rotation ?sh \<and> pg_strcasecmp pg_example (filename_in_use ?b) (filename ?sh) = 0"
    by (simp add: pg_strcasecmp_same)
  have nr: "needs_rotate_file pg_example os_example gucs_example ?sh ?b = Inr (True, ?sh1)"
    using same by (simp add: needs_rotate_file_def example_deadline tc(1))
  have cf: "(if True then calculate_filename pg_example gucs_example ?sh1 else Inr ?sh1) = Inr ?sh2"
    by (simp add: calculate_filename_def store_filename_def audit_filename_def
        current_rotation_time_def gucs_example_def pg_example_def int_times_hour MAXPGPATH_def
        example_fmt_d Let_def)
  have cl: "close_file ?b = (if True then close_file ?b else ?b)"
    by simp
  have fh: "file_handler ?bo = Some ''log/1704067200''"
    by simp
  let ?L = "fst (format_audit_line pg_example os_example edata_example ?bo [])"
  let ?ok = "fwrite_rc os_example = int (length ?L)"
  let ?b2 = "(snd (format_audit_line pg_example os_example edata_example ?bo []))
              \<lparr>written := written ?bo @ [(''log/1704067200'', take (nat (fwrite_rc os_example)) ?L)],
               reports := reports ?bo
                  @ (if fwrite_rc os_example \<noteq> int (length ?L)
                     then [Could_not_write_audit_log_file (filename ?sh2)] else [])\<rparr>"
  have w: "write_audit pg_example os_example edata_example ?sh2 ?bo = Inr (?ok, ?b2)"
    by (rule write_audit_open [OF fh])
  have fh2: "file_handler ?b2 = Some ''log/1704067200''"
    using format_audit_line_frame [of pg_example os_example edata_example ?bo "[]"]
    by simp
  have ra: "record_audit pg_example os_example gucs_example edata_example ?sh ?b
            = Inr (?ok, ?sh2, ?b2)"
    unfolding record_audit_unfold [OF nr cf cl] w
    by (simp add: tc)
  have op: "file_handler ?b2 \<noteq> None"
    by (simp only: fh2) simp
  have pos: "0 < guc_pgaudit_log_rotation_age gucs_example"
    by (simp add: gucs_example_def)
  have acc: "guc_rotation_age_accepts (guc_pgaudit_log_rotation_age gucs_example)"
    by (simp add: gucs_example_def guc_accepts_hour)
  have mono: "time_check os_example \<le> time_calc os_example"
    by (simp add: tc)
  from needs_rotate_file_after_rotation [OF nr ra op pos acc, of os_example] same mono
  have "time_check os_example < next_rotation_time ?sh2
        \<and> needs_rotate_file pg_example os_example gucs_example ?sh2 ?b2 = Inr (False, ?sh2)"
    by blast
  then have lt: "time_check os_example < 1704070800"
    and nf: "needs_rotate_file pg_example os_example gucs_example ?sh2 ?b2 = Inr (False, ?sh2)"
    by simp_all
  let ?R = "record_audit pg_example os_example gucs_example edata_example ?sh ?b"
  have p1: "\<not> isl ?R"
    by (simp only: ra sum.disc simp_thms)
  have p2: "fst (snd (projr ?R)) = ?sh2"
    by (simp only: ra sum.sel fst_conv snd_conv)
  have p3: "snd (snd (projr ?R)) = ?b2"
    by (simp only: ra sum.sel snd_conv)
  have p4: "file_handler (snd (snd (projr ?R))) = Some ''log/1704067200''"
    unfolding p3 by (rule fh2)
  have p5: "needs_rotate_file pg_example os_example gucs_example ?sh2 (snd (snd (projr ?R)))
            = Inr (False, ?sh2)"
    unfolding p3 by (rule nf)
  from nr p1 p2 p4 pos acc mono lt p5 show ?thesis
    by (intro conjI)
qed

subsection \<open>Claims about failures of the write and of the open\<close>

lemma record_audit_needs:
  assumes "record_audit pg os g edata sh b = Inr (ok, sh', b')"
  obtains rot sh1 where "needs_rotate_file pg os g sh b = Inr (rot, sh1)"
    and "(if rot then calculate_filename pg g sh1 else Inr sh1) = Inr sh'"
proof -
  from assms obtain rot sh1 where nr: "needs_rotate_file pg os g sh b = Inr (rot, sh1)"
    by (cases "needs_rotate_file pg os g sh b") (auto simp add: record_audit_def)
  from assms nr obtain sh2 where cf: "(if rot then calculate_filename pg g sh1 else Inr sh1) = Inr sh2"
    by (cases "calculate_filename pg g sh1"; cases rot) (auto simp add: record_audit_def)
  from assms have "sh' = sh2"
    unfolding record_audit_unfold [OF nr cf refl]
    by (auto split: if_splits sum.splits)
  with nr cf that show thesis by blast
qed

lemma record_audit_open_failed:
  assumes ra: "record_audit pg os g edata sh b = Inr (ok, sh', b')"
      and fh: "file_handler b' = None"
  shows "\<not> ok \<and> \<not> fopen_ok os
       \<and> log_line_number b' = log_line_number b \<and> log_my_pid b' = log_my_pid b
       \<and> formatted_start_time b' = formatted_start_time b \<and> written b' = written b
       \<and> reports b' = reports b @ [Could_not_open_log_file (filename sh')]"
proof -
  from ra obtain rot sh1 where nr: "needs_rotate_file pg os g sh b = Inr (rot, sh1)"
    and cf: "(if rot then calculate_filename pg g sh1 else Inr sh1) = Inr sh'"
    by (rule record_audit_needs)
  let ?b = "if rot then close_file b else b"
  note u = record_audit_unfold [OF nr cf refl, of edata]
  show ?thesis
  proof (cases "file_handler ?b")
    case None
    show ?thesis
    proof (cases "fopen_ok os")
      case True
      let ?bo = "?b\<lparr>file_handler := Some (filename sh'), filename_in_use := filename sh'\<rparr>"
      have "file_handler ?bo = Some (filename sh')" by simp
      note w = write_audit_open [OF this, of pg os edata sh']
      from ra have "file_handler b' = Some (filename sh')"
        unfolding u using None True format_audit_line_frame [of pg os edata ?bo "[]"]
        by (auto simp add: w)
      with fh show ?thesis by simp
    next
      case False
      from ra have "b' = ?b\<lparr>file_handler := None,
                            reports := reports ?b @ [Could_not_open_log_file (filename sh')]\<rparr>"
        and "\<not> ok"
        unfolding u using None False by simp_all
      with False show ?thesis by (cases rot) simp_all
    qed
  next
    case (Some stream)
    note w = write_audit_open [OF Some, of pg os edata sh']
    from ra have "file_handler b' = Some stream"
      unfolding u using Some format_audit_line_frame [of pg os edata ?b "[]"]
      by (auto simp add: w)
    with fh show ?thesis by simp
  qed
qed

lemma record_audit_wrote:
  assumes ra: "record_audit pg os g edata sh b = Inr (ok, sh', b')"
      and fh: "file_handler b' \<noteq> None"
  shows "ok = (fwrite_rc os = int (length (fst (format_audit_line pg os edata b []))))
       \<and> log_line_number b' = (if log_my_pid b \<noteq> MyProcPid pg then 0 else log_line_number b) + 1
       \<and> log_my_pid b' = MyProcPid pg
       \<and> (\<exists>stream. file_handler b' = Some stream
             \<and> written b' = written b
                  @ [(stream, take (nat (fwrite_rc os)) (fst (format_audit_line pg os edata b [])))])
       \<and> (ok \<longrightarrow> reports b' = reports b)
       \<and> (\<not> ok \<longrightarrow> reports b' = reports b @ [Could_not_write_audit_log_file (filename sh')])"
proof -
  from ra obtain rot sh1 where nr: "needs_rotate_file pg os g sh b = Inr (rot, sh1)"
    and cf: "(if rot then calculate_filename pg g sh1 else Inr sh1) = Inr sh'"
    by (rule record_audit_needs)
  let ?b = "if rot then close_file b else b"
  note u = record_audit_unfold [OF nr cf refl, of edata]
  have opened: "file_handler ?b \<noteq> None \<or> fopen_ok os"
  proof (rule ccontr)
    assume "\<not> (file_handler ?b \<noteq> None \<or> fopen_ok os)"
    with ra fh show False unfolding u by auto
  qed
  define bo where "bo = (if file_handler ?b = None
      then ?b\<lparr>file_handler := Some (filename sh'), filename_in_use := filename sh'\<rparr> else ?b)"
  obtain stream where st: "file_handler bo = Some stream"
    by (cases "file_handler ?b") (auto simp add: bo_def)
  have dep: "log_line_number bo = log_line_number b" "log_my_pid bo = log_my_pid b"
      "formatted_start_time bo = formatted_start_time b"
      "formatted_log_time bo = formatted_log_time b"
      "reports bo = reports b" "written bo = written b"
    by (cases rot; cases "file_handler b"; simp add: bo_def)+
  have line: "fst (format_audit_line pg os edata bo []) = fst (format_audit_line pg os edata b [])"
    by (rule format_audit_line_depends) (simp_all add: dep)
  from opened have "record_audit pg os g edata sh b
      = (case write_audit pg os edata sh' bo of Inl e \<Rightarrow> Inl e | Inr (ok, b') \<Rightarrow> Inr (ok, sh', b'))"
    unfolding u bo_def by auto
  with ra have res: "ok = (fwrite_rc os = int (length (fst (format_audit_line pg os edata b []))))"
    "b' = (snd (format_audit_line pg os edata bo []))
              \<lparr>written := written b
                  @ [(stream, take (nat (fwrite_rc os)) (fst (format_audit_line pg os edata b [])))],
               reports := reports b
                  @ (if fwrite_rc os \<noteq> int (length (fst (format_audit_line pg os edata b [])))
                     then [Could_not_write_audit_log_file (filename sh')] else [])\<rparr>"
    by (auto simp add: write_audit_open [OF st] line dep)
  show ?thesis
    using format_audit_line_frame [of pg os edata bo "[]"]
    by (simp add: res format_audit_line_number dep st)
qed

lemma emit_log_not_recorded:
  assumes "message edata = Some msg"
      and "pg_strncasecmp pg msg PGAUDIT_PREFIX_LINE (length PGAUDIT_PREFIX_LINE) = 0"
      and "is_enabled (Some sh) g"
      and "record_audit pg os g edata sh b = Inr (False, sh', b')"
  shows "emit_log pg os g prev edata (Some sh) b
     = Inr (case prev of None \<Rightarrow> edata | Some hook \<Rightarrow> hook edata, Some sh',
            b'\<lparr>forwarded := forwarded b' @ (case prev of None \<Rightarrow> [] | Some hook \<Rightarrow> [edata])\<rparr>)"
  using assms
  by (cases prev) (simp_all add: emit_log_def call_prev_emit_log_hook_def)

text \<open>
  Claim C7. With the file open, the write returns, and it reports failure if and only if
  the count that \<^verbatim>\<open>fwrite\<close> returns differs from the length of the formatted line. The
  line is handed to the stream once, which takes the bytes that \<^verbatim>\<open>fwrite\<close> counts; on
  failure one warning is reported, the file stays open under its name, and nothing more
  is handed to the stream: the rest of the line is not written again.
  The hook then passes the record to the previous hook, if there is one, leaves
  \<open>output_to_server\<close> as it was, and returns: no error reaches the caller. The same
  holds for every record that the recorder fails to record.
\<close>

theorem write_audit_failure:
  assumes "file_handler b = Some stream"
  shows "(\<exists>ok b'. write_audit pg os edata sh b = Inr (ok, b')
            \<and> (\<not> ok) = (fwrite_rc os \<noteq> int (length (fst (format_audit_line pg os edata b []))))
            \<and> file_handler b' = Some stream
            \<and> filename_in_use b' = filename_in_use b
            \<and> written b'
                = written b
                    @ [(stream, take (nat (fwrite_rc os)) (fst (format_audit_line pg os edata b [])))]
            \<and> reports b'
                = reports b @ (if ok then [] else [Could_not_write_audit_log_file (filename sh)]))
       \<and> (message edata = Some msg
            \<and> pg_strncasecmp pg msg PGAUDIT_PREFIX_LINE (length PGAUDIT_PREFIX_LINE) = 0
            \<and> is_enabled (Some sh) g
            \<and> needs_rotate_file pg os g sh b = Inr (False, sh)
            \<and> fwrite_rc os \<noteq> int (length (fst (format_audit_line pg os edata b []))) \<longrightarrow>
           (\<exists>b'. emit_log pg os g prev edata (Some sh) b
                    = Inr (case prev of None \<Rightarrow> edata | Some hook \<Rightarrow> hook edata, Some sh, b')
                \<and> file_handler b' = Some stream
                \<and> written b'
                    = written b
                        @ [(stream, take (nat (fwrite_rc os))
                                      (fst (format_audit_line pg os edata b [])))]
                \<and> reports b' = reports b @ [Could_not_write_audit_log_file (filename sh)]
                \<and> forwarded b'
                    = forwarded b @ (case prev of None \<Rightarrow> [] | Some hook \<Rightarrow> [edata])))
       \<and> (message edata = Some msg
            \<and> pg_strncasecmp pg msg PGAUDIT_PREFIX_LINE (length PGAUDIT_PREFIX_LINE) = 0
            \<and> is_enabled (Some sh) g
            \<and> record_audit pg os g edata sh b = Inr (False, sh1, b1) \<longrightarrow>
           emit_log pg os g prev edata (Some sh) b
             = Inr (case prev of None \<Rightarrow> edata | Some hook \<Rightarrow> hook edata, Some sh1,
                    b1\<lparr>forwarded := forwarded b1
                          @ (case prev of None \<Rightarrow> [] | Some hook \<Rightarrow> [edata])\<rparr>))"
proof (intro conjI impI)
  show "\<exists>ok b'. write_audit pg os edata sh b = Inr (ok, b')
            \<and> (\<not> ok) = (fwrite_rc os \<noteq> int (length (fst (format_audit_line pg os edata b []))))
            \<and> file_handler b' = Some stream
            \<and> filename_in_use b' = filename_in_use b
            \<and> written b'
                = written b
                    @ [(stream, take (nat (fwrite_rc os)) (fst (format_audit_line pg os edata b [])))]
            \<and> reports b'
                = reports b @ (if ok then [] else [Could_not_write_audit_log_file (filename sh)])"
    using assms format_audit_line_frame [of pg os edata b "[]"]
    by (simp add: write_audit_open [OF assms])
next
  assume h: "message edata = Some msg
            \<and> pg_strncasecmp pg msg PGAUDIT_PREFIX_LINE (length PGAUDIT_PREFIX_LINE) = 0
            \<and> is_enabled (Some sh) g
            \<and> needs_rotate_file pg os g sh b = Inr (False, sh)
            \<and> fwrite_rc os \<noteq> int (length (fst (format_audit_line pg os edata b [])))"
  let ?b1 = "(snd (format_audit_line pg os edata b []))
              \<lparr>written := written b
                  @ [(stream, take (nat (fwrite_rc os)) (fst (format_audit_line pg os edata b [])))],
               reports := reports b @ [Could_not_write_audit_log_file (filename sh)]\<rparr>"
  from h assms have ra: "record_audit pg os g edata sh b = Inr (False, sh, ?b1)"
    by (simp add: record_audit_no_rotation [where stream = stream])
  from h have m: "message edata = Some msg"
    and p: "pg_strncasecmp pg msg PGAUDIT_PREFIX_LINE (length PGAUDIT_PREFIX_LINE) = 0"
    and en: "is_enabled (Some sh) g"
    by blast+
  have e: "emit_log pg os g prev edata (Some sh) b
     = Inr (case prev of None \<Rightarrow> edata | Some hook \<Rightarrow> hook edata, Some sh,
            ?b1\<lparr>forwarded := forwarded ?b1 @ (case prev of None \<Rightarrow> [] | Some hook \<Rightarrow> [edata])\<rparr>)"
    by (rule emit_log_not_recorded [OF m p en ra])
  show "\<exists>b'. emit_log pg os g prev edata (Some sh) b
                    = Inr (case prev of None \<Rightarrow> edata | Some hook \<Rightarrow> hook edata, Some sh, b')
                \<and> file_handler b' = Some stream
                \<and> written b'
                    = written b
                        @ [(stream, take (nat (fwrite_rc os))
                                      (fst (format_audit_line pg os edata b [])))]
                \<and> reports b' = reports b @ [Could_not_write_audit_log_file (filename sh)]
                \<and> forwarded b'
                    = forwarded b @ (case prev of None \<Rightarrow> [] | Some hook \<Rightarrow> [edata])"
    unfolding e using assms format_audit_line_frame [of pg os edata b "[]"]
    by simp
next
  assume "message edata = Some msg
            \<and> pg_strncasecmp pg msg PGAUDIT_PREFIX_LINE (length PGAUDIT_PREFIX_LINE) = 0
            \<and> is_enabled (Some sh) g
            \<and> record_audit pg os g edata sh b = Inr (False, sh1, b1)"
  then have "message edata = Some msg"
    and "pg_strncasecmp pg msg PGAUDIT_PREFIX_LINE (length PGAUDIT_PREFIX_LINE) = 0"
    and "is_enabled (Some sh) g"
    and "record_audit pg os g edata sh b = Inr (False, sh1, b1)"
    by blast+
  then show "emit_log pg os g prev edata (Some sh) b
             = Inr (case prev of None \<Rightarrow> edata | Some hook \<Rightarrow> hook edata, Some sh1,
                    b1\<lparr>forwarded := forwarded b1
                          @ (case prev of None \<Rightarrow> [] | Some hook \<Rightarrow> [edata])\<rparr>)"
    by (rule emit_log_not_recorded)
qed

lemma format_audit_line_fwrite:
  "fst (format_audit_line pg (os\<lparr>fwrite_rc := rc\<rparr>) edata b buf)
     = fst (format_audit_line pg os edata b buf)"
  by (simp add: format_audit_line_fields audit_fields_def format_log_time_def)

lemma example_audit_record:
  "message edata_example = Some ''AUDIT: SESSION,1,1,READ''
   \<and> pg_strncasecmp pg_example ''AUDIT: SESSION,1,1,READ'' PGAUDIT_PREFIX_LINE
        (length PGAUDIT_PREFIX_LINE) = 0
   \<and> is_enabled (Some sh) gucs_example"
  by (simp add: edata_example_def PGAUDIT_PREFIX_LINE_def is_enabled_def gucs_example_def
      eval_nat_numeral)

lemma example_no_rotation:
  "needs_rotate_file pg_example (os_example\<lparr>fwrite_rc := rc\<rparr>) gucs_example
     \<lparr>filename = ''log/1704063600'', force_rotation = False, next_rotation_time = 1704070800\<rparr>
     (b\<lparr>filename_in_use := ''log/1704063600''\<rparr>)
   = Inr (False, \<lparr>filename = ''log/1704063600'', force_rotation = False,
                   next_rotation_time = 1704070800\<rparr>)"
  by (simp add: needs_rotate_file_def pg_strcasecmp_same os_example_def)

lemma example_short_write:
  "fwrite_rc (os_example\<lparr>fwrite_rc := 100\<rparr>)
     \<noteq> int (length (fst (format_audit_line pg_example (os_example\<lparr>fwrite_rc := 100\<rparr>) edata_example
           (backend_start\<lparr>file_handler := Some ''log/1704063600'',
                          filename_in_use := ''log/1704063600''\<rparr>) [])))"
proof -
  have "fst (format_audit_line pg_example (os_example\<lparr>fwrite_rc := 100\<rparr>) edata_example
           (backend_start\<lparr>file_handler := Some ''log/1704063600'',
                          filename_in_use := ''log/1704063600''\<rparr>) [])
        = fst (format_audit_line pg_example os_example edata_example backend_start [])"
    unfolding format_audit_line_fwrite by (rule format_audit_line_depends) simp_all
  then show ?thesis
    by (simp add: example_length)
qed

theorem write_audit_failure_witness:
  "file_handler (backend_start\<lparr>file_handler := Some ''log/1704063600'',
                               filename_in_use := ''log/1704063600''\<rparr>) = Some ''log/1704063600''
   \<and> fwrite_rc (os_example\<lparr>fwrite_rc := 100\<rparr>)
       \<noteq> int (length (fst (format_audit_line pg_example (os_example\<lparr>fwrite_rc := 100\<rparr>)
             edata_example
             (backend_start\<lparr>file_handler := Some ''log/1704063600'',
                            filename_in_use := ''log/1704063600''\<rparr>) [])))
   \<and> \<not> isl (write_audit pg_example (os_example\<lparr>fwrite_rc := 100\<rparr>) edata_example
        \<lparr>filename = ''log/1704063600'', force_rotation = False, next_rotation_time = 1704070800\<rparr>
        (backend_start\<lparr>file_handler := Some ''log/1704063600'',
                       filename_in_use := ''log/1704063600''\<rparr>))
   \<and> \<not> fst (projr (write_audit pg_example (os_example\<lparr>fwrite_rc := 100\<rparr>) edata_example
        \<lparr>filename = ''log/1704063600'', force_rotation = False, next_rotation_time = 1704070800\<rparr>
        (backend_start\<lparr>file_handler := Some ''log/1704063600'',
                       filename_in_use := ''log/1704063600''\<rparr>)))
   \<and> \<not> isl (emit_log pg_example (os_example\<lparr>fwrite_rc := 100\<rparr>) gucs_example None edata_example
        (Some \<lparr>filename = ''log/1704063600'', force_rotation = False,
               next_rotation_time = 1704070800\<rparr>)
        (backend_start\<lparr>file_handler := Some ''log/1704063600'',
                       filename_in_use := ''log/1704063600''\<rparr>))
   \<and> fst (projr (emit_log pg_example (os_example\<lparr>fwrite_rc := 100\<rparr>) gucs_example None
        edata_example
        (Some \<lparr>filename = ''log/1704063600'', force_rotation = False,
               next_rotation_time = 1704070800\<rparr>)
        (backend_start\<lparr>file_handler := Some ''log/1704063600'',
                       filename_in_use := ''log/1704063600''\<rparr>))) = edata_example
   \<and> file_handler (snd (snd (projr (emit_log pg_example (os_example\<lparr>fwrite_rc := 100\<rparr>)
        gucs_example None edata_example
        (Some \<lparr>filename = ''log/1704063600'', force_rotation = False,
               next_rotation_time = 1704070800\<rparr>)
        (backend_start\<lparr>file_handler := Some ''log/1704063600'',
                       filename_in_use := ''log/1704063600''\<rparr>))))) = Some ''log/1704063600''
   \<and> reports (snd (snd (projr (emit_log pg_example (os_example\<lparr>fwrite_rc := 100\<rparr>)
        gucs_example None edata_example
        (Some \<lparr>filename = ''log/1704063600'', force_rotation = False,
               next_rotation_time = 1704070800\<rparr>)
        (backend_start\<lparr>file_handler := Some ''log/1704063600'',
                       filename_in_use := ''log/1704063600''\<rparr>)))))
       = [Could_not_write_audit_log_file ''log/1704063600'']
   \<and> map fst (written (snd (snd (projr (emit_log pg_example (os_example\<lparr>fwrite_rc := 100\<rparr>)
        gucs_example None edata_example
        (Some \<lparr>filename = ''log/1704063600'', force_rotation = False,
               next_rotation_time = 1704070800\<rparr>)
        (backend_start\<lparr>file_handler := Some ''log/1704063600'',
                       filename_in_use := ''log/1704063600''\<rparr>))))))
       = [''log/1704063600'']"
proof -
  let ?os = "os_example\<lparr>fwrite_rc := 100\<rparr>"
  let ?sh = "\<lparr>filename = ''log/1704063600'', force_rotation = False,
              next_rotation_time = 1704070800\<rparr>"
  let ?b = "backend_start\<lparr>file_handler := Some ''log/1704063600'',
                          filename_in_use := ''log/1704063600''\<rparr>"
  have fh: "file_handler ?b = Some ''log/1704063600''"
    by simp
  note t = write_audit_failure [OF fh, of pg_example ?os edata_example ?sh
      "''AUDIT: SESSION,1,1,READ''" gucs_example None]
  have short: "fwrite_rc ?os \<noteq> int (length (fst (format_audit_line pg_example ?os edata_example ?b [])))"
    by (rule example_short_write)
  have nr: "needs_rotate_file pg_example ?os gucs_example ?sh ?b = Inr (False, ?sh)"
    using example_no_rotation [of 100 "backend_start\<lparr>file_handler := Some ''log/1704063600''\<rparr>"]
    by simp
  from t obtain ok b' where w: "write_audit pg_example ?os edata_example ?sh ?b = Inr (ok, b')"
    and ok: "(\<not> ok) = (fwrite_rc ?os
                \<noteq> int (length (fst (format_audit_line pg_example ?os edata_example ?b []))))"
    by blast
  from t example_audit_record [of ?sh] nr short
  obtain b'' where e: "emit_log pg_example ?os gucs_example None edata_example (Some ?sh) ?b
                        = Inr (edata_example, Some ?sh, b'')"
    and "file_handler b'' = Some ''log/1704063600''"
    and "reports b'' = reports ?b @ [Could_not_write_audit_log_file (filename ?sh)]"
    and "written b'' = written ?b
           @ [(''log/1704063600'', take (nat (fwrite_rc ?os))
                 (fst (format_audit_line pg_example ?os edata_example ?b [])))]"
    by auto
  with fh short w ok show ?thesis
    by (simp add: backend_start_def)
qed

text \<open>
  Claim C9. The recorder returns with the file open exactly when it came to the write: the
  line was formatted then, and the line counter has moved on by one, or to 1 for a new
  process id, whether the write succeeded or not; a line that failed with a short count
  carried the number the counter has now. The recorder returns with the file closed
  exactly when the open failed; nothing was formatted then, and the counter, the process
  id it counts for and the cached session start are as before. So the record written
  with success after one whose write failed carries a number two above the counter
  before the two, and the record written after one whose open failed a number one above.
\<close>

theorem line_number_consumed:
  "(record_audit pg os g edata sh b = Inr (ok, sh', b') \<and> file_handler b' \<noteq> None \<longrightarrow>
      ok = (fwrite_rc os = int (length (fst (format_audit_line pg os edata b []))))
      \<and> log_line_number b' = (if log_my_pid b \<noteq> MyProcPid pg then 0 else log_line_number b) + 1
      \<and> audit_fields pg os edata b ! 6 = fmt_d (log_line_number b'))
   \<and> (record_audit pg os g edata sh b = Inr (ok, sh', b') \<and> file_handler b' = None \<longrightarrow>
      \<not> ok \<and> \<not> fopen_ok os \<and> log_line_number b' = log_line_number b
      \<and> log_my_pid b' = log_my_pid b \<and> formatted_start_time b' = formatted_start_time b
      \<and> written b' = written b)
   \<and> (record_audit pg os g edata sh b = Inr (False, sh', b') \<and> file_handler b' \<noteq> None
       \<and> record_audit pg os2 g edata2 sh' b' = Inr (True, sh'', b'') \<longrightarrow>
      log_line_number b'' = (if log_my_pid b \<noteq> MyProcPid pg then 0 else log_line_number b) + 2
      \<and> audit_fields pg os2 edata2 b' ! 6
          = fmt_d ((if log_my_pid b \<noteq> MyProcPid pg then 0 else log_line_number b) + 2)
      \<and> (\<exists>stream. last (written b'') = (stream, fst (format_audit_line pg os2 edata2 b' []))))
   \<and> (record_audit pg os g edata sh b = Inr (ok, sh', b') \<and> file_handler b' = None
       \<and> record_audit pg os2 g edata2 sh' b' = Inr (True, sh'', b'') \<longrightarrow>
      log_line_number b'' = (if log_my_pid b \<noteq> MyProcPid pg then 0 else log_line_number b) + 1)"
proof (intro conjI)
  show "record_audit pg os g edata sh b = Inr (ok, sh', b') \<and> file_handler b' \<noteq> None \<longrightarrow>
      ok = (fwrite_rc os = int (length (fst (format_audit_line pg os edata b []))))
      \<and> log_line_number b' = (if log_my_pid b \<noteq> MyProcPid pg then 0 else log_line_number b) + 1
      \<and> audit_fields pg os edata b ! 6 = fmt_d (log_line_number b')"
  proof
    assume "record_audit pg os g edata sh b = Inr (ok, sh', b') \<and> file_handler b' \<noteq> None"
    then have ra: "record_audit pg os g edata sh b = Inr (ok, sh', b')"
      and fh: "file_handler b' \<noteq> None"
      by blast+
    note w = record_audit_wrote [OF ra fh]
    from w have k: "ok = (fwrite_rc os = int (length (fst (format_audit_line pg os edata b []))))"
      by blast
    from w have n: "log_line_number b'
        = (if log_my_pid b \<noteq> MyProcPid pg then 0 else log_line_number b) + 1"
      by blast
    have "audit_fields pg os edata b ! 6 = fmt_d (log_line_number b')"
      unfolding n
      by (simp add: audit_fields_def put_line_number_def appendStringInfoString_def
          count_line_number)
    with k n show "ok = (fwrite_rc os = int (length (fst (format_audit_line pg os edata b []))))
      \<and> log_line_number b' = (if log_my_pid b \<noteq> MyProcPid pg then 0 else log_line_number b) + 1
      \<and> audit_fields pg os edata b ! 6 = fmt_d (log_line_number b')"
      by blast
  qed
  show "record_audit pg os g edata sh b = Inr (ok, sh', b') \<and> file_handler b' = None \<longrightarrow>
      \<not> ok \<and> \<not> fopen_ok os \<and> log_line_number b' = log_line_number b
      \<and> log_my_pid b' = log_my_pid b \<and> formatted_start_time b' = formatted_start_time b
      \<and> written b' = written b"
  proof
    assume "record_audit pg os g edata sh b = Inr (ok, sh', b') \<and> file_handler b' = None"
    then have ra: "record_audit pg os g edata sh b = Inr (ok, sh', b')"
      and fh: "file_handler b' = None"
      by blast+
    from record_audit_open_failed [OF ra fh]
    show "\<not> ok \<and> \<not> fopen_ok os \<and> log_line_number b' = log_line_number b
        \<and> log_my_pid b' = log_my_pid b \<and> formatted_start_time b' = formatted_start_time b
        \<and> written b' = written b"
      by blast
  qed
  show "record_audit pg os g edata sh b = Inr (False, sh', b') \<and> file_handler b' \<noteq> None
       \<and> record_audit pg os2 g edata2 sh' b' = Inr (True, sh'', b'') \<longrightarrow>
      log_line_number b'' = (if log_my_pid b \<noteq> MyProcPid pg then 0 else log_line_number b) + 2
      \<and> audit_fields pg os2 edata2 b' ! 6
          = fmt_d ((if log_my_pid b \<noteq> MyProcPid pg then 0 else log_line_number b) + 2)
      \<and> (\<exists>stream. last (written b'') = (stream, fst (format_audit_line pg os2 edata2 b' [])))"
  proof
    assume "record_audit pg os g edata sh b = Inr (False, sh', b') \<and> file_handler b' \<noteq> None
       \<and> record_audit pg os2 g edata2 sh' b' = Inr (True, sh'', b'')"
    then have ra: "record_audit pg os g edata sh b = Inr (False, sh', b')"
      and fh: "file_handler b' \<noteq> None"
      and ra2: "record_audit pg os2 g edata2 sh' b' = Inr (True, sh'', b'')"
      by blast+
    note w = record_audit_wrote [OF ra fh]
    from w have n: "log_line_number b'
        = (if log_my_pid b \<noteq> MyProcPid pg then 0 else log_line_number b) + 1"
      and p: "log_my_pid b' = MyProcPid pg"
      by blast+
    have fh2: "file_handler b'' \<noteq> None"
    proof
      assume "file_handler b'' = None"
      from record_audit_open_failed [OF ra2 this] show False by simp
    qed
    note w2 = record_audit_wrote [OF ra2 fh2]
    from w2 have full: "fwrite_rc os2 = int (length (fst (format_audit_line pg os2 edata2 b' [])))"
      by simp
    from w2 have n2: "log_line_number b''
        = (if log_my_pid b \<noteq> MyProcPid pg then 0 else log_line_number b) + 2"
      by (simp add: n p)
    have f: "audit_fields pg os2 edata2 b' ! 6
          = fmt_d ((if log_my_pid b \<noteq> MyProcPid pg then 0 else log_line_number b) + 2)"
      by (simp add: audit_fields_def put_line_number_def appendStringInfoString_def
          count_line_number n p add.commute)
    from w2 obtain stream where "written b'' = written b'
        @ [(stream, take (nat (fwrite_rc os2)) (fst (format_audit_line pg os2 edata2 b' [])))]"
      by blast
    then have "\<exists>stream. last (written b'') = (stream, fst (format_audit_line pg os2 edata2 b' []))"
      by (simp add: full)
    with n2 f show "log_line_number b''
        = (if log_my_pid b \<noteq> MyProcPid pg then 0 else log_line_number b) + 2
      \<and> audit_fields pg os2 edata2 b' ! 6
          = fmt_d ((if log_my_pid b \<noteq> MyProcPid pg then 0 else log_line_number b) + 2)
      \<and> (\<exists>stream. last (written b'') = (stream, fst (format_audit_line pg os2 edata2 b' [])))"
      by blast
  qed
  show "record_audit pg os g edata sh b = Inr (ok, sh', b') \<and> file_handler b' = None
       \<and> record_audit pg os2 g edata2 sh' b' = Inr (True, sh'', b'') \<longrightarrow>
      log_line_number b'' = (if log_my_pid b \<noteq> MyProcPid pg then 0 else log_line_number b) + 1"
  proof
    assume "record_audit pg os g edata sh b = Inr (ok, sh', b') \<and> file_handler b' = None
       \<and> record_audit pg os2 g edata2 sh' b' = Inr (True, sh'', b'')"
    then have ra: "record_audit pg os g edata sh b = Inr (ok, sh', b')"
      and fh: "file_handler b' = None"
      and ra2: "record_audit pg os2 g edata2 sh' b' = Inr (True, sh'', b'')"
      by blast+
    note f = record_audit_open_failed [OF ra fh]
    have fh2: "file_handler b'' \<noteq> None"
    proof
      assume "file_handler b'' = None"
      from record_audit_open_failed [OF ra2 this] show False by simp
    qed
    from record_audit_wrote [OF ra2 fh2] f
    show "log_line_number b''
        = (if log_my_pid b \<noteq> MyProcPid pg then 0 else log_line_number b) + 1"
      by simp
  qed
qed

lemma example_second_length:
  assumes "log_line_number b = 1" and "log_my_pid b = 4242"
      and "formatted_start_time b = ''1704067200''"
  shows "length (fst (format_audit_line pg_example os_example edata_example b [])) = 119"
proof -
  let ?c = "backend_start\<lparr>log_line_number := 1, log_my_pid := 4242,
                           formatted_start_time := ''1704067200''\<rparr>"
  have same: "fst (format_audit_line pg_example os_example edata_example b [])
              = fst (format_audit_line pg_example os_example edata_example ?c [])"
    by (rule format_audit_line_depends) (simp_all add: assms example_log_time)
  have counted: "cache_start_time pg_example (count_line pg_example ?c)
     = backend_start\<lparr>log_line_number := 2, log_my_pid := 4242,
                      formatted_start_time := ''1704067200''\<rparr>"
    by (simp add: cache_start_time_def count_line_def backend_start_def pg_example_def)
  have two: "fmt_d 2 = ''2''"
    by (simp add: fmt_d_def digit_char_def)
  have fields: "audit_fields pg_example os_example edata_example ?c
     = [''1704069000'', ''\"alice\"'', ''\"db\"'', ''4242'', ''\"10.0.0.1:5432\"'',
        ''65920080.1092'', ''2'', ''\"\"'', ''1704067200'', [], ''0'', ''00000'',
        ''\"AUDIT: SESSION,1,1,READ\"'', [], [], [], [], [], [], [], [], []]"
    unfolding audit_fields_def counted example_log_time Let_def
    by (simp add: put_username_def put_database_name_def
        put_pid_def put_remote_def put_session_id_def put_line_number_def put_ps_display_def
        put_vxid_def put_detail_def put_internalpos_def put_statement_def put_cursorpos_def
        put_location_def put_application_name_def print_stmt_def append_csv_literal_Some
        append_csv_literal_None
        appendStringInfoChar_def appendStringInfoString_def example_fmt_lx example_fmt_x
        example_fmt_d two
        pg_example_def edata_example_def backend_start_def
        PGERROR_VERBOSE_def DQUOTE_def Let_def)
  show ?thesis
    unfolding same by (simp add: format_audit_line_fields fields)
qed

theorem line_number_consumed_witness:
  "\<not> isl (record_audit pg_example (os_example\<lparr>fwrite_rc := 100\<rparr>) gucs_example edata_example
        \<lparr>filename = ''log/1704063600'', force_rotation = False, next_rotation_time = 1704070800\<rparr>
        (backend_start\<lparr>file_handler := Some ''log/1704063600'',
                       filename_in_use := ''log/1704063600''\<rparr>))
   \<and> \<not> fst (projr (record_audit pg_example (os_example\<lparr>fwrite_rc := 100\<rparr>) gucs_example
        edata_example
        \<lparr>filename = ''log/1704063600'', force_rotation = False, next_rotation_time = 1704070800\<rparr>
        (backend_start\<lparr>file_handler := Some ''log/1704063600'',
                       filename_in_use := ''log/1704063600''\<rparr>)))
   \<and> log_line_number (snd (snd (projr (record_audit pg_example (os_example\<lparr>fwrite_rc := 100\<rparr>)
        gucs_example edata_example
        \<lparr>filename = ''log/1704063600'', force_rotation = False, next_rotation_time = 1704070800\<rparr>
        (backend_start\<lparr>file_handler := Some ''log/1704063600'',
                       filename_in_use := ''log/1704063600''\<rparr>))))) = 1
   \<and> \<not> isl (record_audit pg_example os_example gucs_example edata_example
        \<lparr>filename = ''log/1704063600'', force_rotation = False, next_rotation_time = 1704070800\<rparr>
        (snd (snd (projr (record_audit pg_example (os_example\<lparr>fwrite_rc := 100\<rparr>) gucs_example
           edata_example
           \<lparr>filename = ''log/1704063600'', force_rotation = False,
            next_rotation_time = 1704070800\<rparr>
           (backend_start\<lparr>file_handler := Some ''log/1704063600'',
                          filename_in_use := ''log/1704063600''\<rparr>))))))
   \<and> fst (projr (record_audit pg_example os_example gucs_example edata_example
        \<lparr>filename = ''log/1704063600'', force_rotation = False, next_rotation_time = 1704070800\<rparr>
        (snd (snd (projr (record_audit pg_example (os_example\<lparr>fwrite_rc := 100\<rparr>) gucs_example
           edata_example
           \<lparr>filename = ''log/1704063600'', force_rotation = False,
            next_rotation_time = 1704070800\<rparr>
           (backend_start\<lparr>file_handler := Some ''log/1704063600'',
                          filename_in_use := ''log/1704063600''\<rparr>)))))))
   \<and> log_line_number (snd (snd (projr (record_audit pg_example os_example gucs_example
        edata_example
        \<lparr>filename = ''log/1704063600'', force_rotation = False, next_rotation_time = 1704070800\<rparr>
        (snd (snd (projr (record_audit pg_example (os_example\<lparr>fwrite_rc := 100\<rparr>) gucs_example
           edata_example
           \<lparr>filename = ''log/1704063600'', force_rotation = False,
            next_rotation_time = 1704070800\<rparr>
           (backend_start\<lparr>file_handler := Some ''log/1704063600'',
                          filename_in_use := ''log/1704063600''\<rparr>))))))))) = 2
   \<and> record_audit pg_example (os_example\<lparr>fopen_ok := False\<rparr>) gucs_example edata_example
        \<lparr>filename = ''log/1704067200'', force_rotation = False, next_rotation_time = 1704070800\<rparr>
        backend_start
       = Inr (False,
              \<lparr>filename = ''log/1704067200'', force_rotation = False,
               next_rotation_time = 1704070800\<rparr>,
              backend_start\<lparr>reports := [Could_not_open_log_file ''log/1704067200'']\<rparr>)
   \<and> log_line_number (backend_start\<lparr>reports := [Could_not_open_log_file ''log/1704067200'']\<rparr>)
       = log_line_number backend_start"
proof -
  let ?os1 = "os_example\<lparr>fwrite_rc := 100\<rparr>"
  let ?sh = "\<lparr>filename = ''log/1704063600'', force_rotation = False,
              next_rotation_time = 1704070800\<rparr>"
  let ?b = "backend_start\<lparr>file_handler := Some ''log/1704063600'',
                          filename_in_use := ''log/1704063600''\<rparr>"
  let ?L1 = "fst (format_audit_line pg_example ?os1 edata_example ?b [])"
  let ?b1 = "(snd (format_audit_line pg_example ?os1 edata_example ?b []))
              \<lparr>written := written ?b @ [(''log/1704063600'', take (nat (fwrite_rc ?os1)) ?L1)],
               reports := reports ?b
                  @ (if fwrite_rc ?os1 \<noteq> int (length ?L1)
                     then [Could_not_write_audit_log_file (filename ?sh)] else [])\<rparr>"
  have fh: "file_handler ?b = Some ''log/1704063600''"
    by simp
  have nr1: "needs_rotate_file pg_example ?os1 gucs_example ?sh ?b = Inr (False, ?sh)"
    using example_no_rotation [of 100 "backend_start\<lparr>file_handler := Some ''log/1704063600''\<rparr>"]
    by simp
  have r1: "record_audit pg_example ?os1 gucs_example edata_example ?sh ?b = Inr (False, ?sh, ?b1)"
    unfolding record_audit_no_rotation [OF nr1 fh]
    using example_short_write by simp
  have b1: "file_handler ?b1 = Some ''log/1704063600''" "filename_in_use ?b1 = ''log/1704063600''"
      "log_line_number ?b1 = 1" "log_my_pid ?b1 = 4242" "formatted_start_time ?b1 = ''1704067200''"
    using format_audit_line_frame [of pg_example ?os1 edata_example ?b "[]"]
    by (simp_all add: format_audit_line_state cache_start_time_def count_line_def backend_start_def
        format_start_time_def pg_example_def FORMATTED_TS_LEN_def example_fmt_d)
  have nr2: "needs_rotate_file pg_example os_example gucs_example ?sh ?b1 = Inr (False, ?sh)"
    using b1 by (simp add: needs_rotate_file_def pg_strcasecmp_same os_example_def)
  have len2: "length (fst (format_audit_line pg_example os_example edata_example ?b1 [])) = 119"
    by (rule example_second_length) (simp_all only: b1)
  obtain b2 where r2: "record_audit pg_example os_example gucs_example edata_example ?sh ?b1
                        = Inr (True, ?sh, b2)"
    unfolding record_audit_no_rotation [OF nr2 b1(1)] len2
    by (simp add: os_example_def)
  have fh1: "file_handler ?b1 \<noteq> None"
    by (simp only: b1) simp
  from line_number_consumed [of pg_example ?os1 gucs_example edata_example ?sh ?b False ?sh ?b1
      os_example edata_example ?sh b2] r1 r2 fh1
  have "log_line_number b2
      = (if log_my_pid ?b \<noteq> MyProcPid pg_example then 0 else log_line_number ?b) + 2"
    by blast
  then have n2: "log_line_number b2 = 2"
    by (simp add: backend_start_def pg_example_def)
  let ?os3 = "os_example\<lparr>fopen_ok := False\<rparr>"
  let ?sh3 = "\<lparr>filename = ''log/1704067200'', force_rotation = False,
               next_rotation_time = 1704070800\<rparr>"
  let ?b3 = "backend_start\<lparr>reports := [Could_not_open_log_file ''log/1704067200'']\<rparr>"
  have nr3: "needs_rotate_file pg_example ?os3 gucs_example ?sh3 backend_start = Inr (True, ?sh3)"
    by (simp add: needs_rotate_file_def backend_start_def fold_diff_def pg_fold_def pg_example_def)
  have cf3: "(if True then calculate_filename pg_example gucs_example ?sh3 else Inr ?sh3) = Inr ?sh3"
    by (simp add: calculate_filename_def store_filename_def audit_filename_def
        current_rotation_time_def gucs_example_def pg_example_def SECS_PER_MINUTE_def int_times_def int_wrap_def MAXPGPATH_def
        example_fmt_d Let_def)
  have cl3: "close_file backend_start = (if True then close_file backend_start else backend_start)"
    by simp
  have r3: "record_audit pg_example ?os3 gucs_example edata_example ?sh3 backend_start
            = Inr (False, ?sh3, ?b3)"
    unfolding record_audit_unfold [OF nr3 cf3 cl3]
    by (simp add: os_example_def close_file_def backend_start_def)
  have fh3: "file_handler ?b3 = None"
    by (simp add: backend_start_def)
  from line_number_consumed [of pg_example ?os3 gucs_example edata_example ?sh3 backend_start
      False ?sh3 ?b3] r3 fh3
  have n3: "log_line_number ?b3 = log_line_number backend_start"
    by blast
  show ?thesis
    unfolding r1 sum.sel sum.disc fst_conv snd_conv r2 r3
    using n2 n3 by (simp only: b1) simp
qed

subsection \<open>Backends side by side: what every schedule keeps\<close>










subsection \<open>One backend alone, step by step\<close>

lemma task_steps_Returned:
  "pc t = Returned r \<Longrightarrow> task_steps g n sh t = Inr (sh, t)"
  by (induction n) (simp_all add: task_step_def)

lemma task_steps_add:
  "task_steps g (m + n) sh t
     = (case task_steps g m sh t of Inl e \<Rightarrow> Inl e | Inr (sh', t') \<Rightarrow> task_steps g n sh' t')"
  by (induction m arbitrary: sh t) (auto split: sum.splits)

lemma task_steps_write:
  assumes "pc t = Write_audit"
  shows "map_sum id (\<lambda>(sh', t'). (pc t', sh', own t')) (task_steps g (Suc n) sh t)
       = (case write_audit (pg_of t) (os_of t) (record_of t) sh (own t) of
            Inl e \<Rightarrow> Inl e
          | Inr (ok, b') \<Rightarrow> Inr (Returned ok, sh, b'))"
  using assms
  by (auto simp add: task_step_def task_steps_Returned split: sum.splits)

lemma task_steps_open:
  assumes "pc t = Check_open"
  shows "map_sum id (\<lambda>(sh', t'). (pc t', sh', own t')) (task_steps g (Suc (Suc (Suc n))) sh t)
       = (if \<not> is_open_file (own t) then
            (case open_file (os_of t) sh (own t) of
               (False, b') \<Rightarrow> Inr (Returned False, sh, b')
             | (True, b') \<Rightarrow>
                 (case write_audit (pg_of t) (os_of t) (record_of t) sh b' of
                    Inl e \<Rightarrow> Inl e
                  | Inr (ok, b'') \<Rightarrow> Inr (Returned ok, sh, b'')))
          else
            (case write_audit (pg_of t) (os_of t) (record_of t) sh (own t) of
               Inl e \<Rightarrow> Inl e
             | Inr (ok, b'') \<Rightarrow> Inr (Returned ok, sh, b'')))"
proof (cases "is_open_file (own t)")
  case True
  let ?t = "t\<lparr>pc := Write_audit\<rparr>"
  have "task_steps g (Suc (Suc (Suc n))) sh t = task_steps g (Suc (Suc n)) sh ?t"
    using assms True by (simp add: task_step_def)
  with task_steps_write [of ?t g "Suc n" sh] True show ?thesis
    by simp
next
  case False
  show ?thesis
  proof (cases "fopen_ok (os_of t)")
    case True
    let ?t = "t\<lparr>pc := Write_audit, own := snd (open_file (os_of t) sh (own t))\<rparr>"
    have "task_steps g (Suc (Suc (Suc n))) sh t = task_steps g (Suc n) sh ?t"
      using assms False True by (simp add: task_step_def open_file_def)
    with task_steps_write [of ?t g n sh] False True show ?thesis
      by (simp add: open_file_def)
  next
    case nok: False
    with assms False show ?thesis
      by (simp add: task_step_def open_file_def task_steps_Returned)
  qed
qed

lemma task_steps_rotate:
  assumes "pc t = Read_period"
  shows "map_sum id (\<lambda>(sh', t'). (pc t', sh', own t'))
           (task_steps g (Suc (Suc (Suc (Suc (Suc (Suc n)))))) sh t)
       = (case calculate_filename (pg_of t) g sh of
            Inl e \<Rightarrow> Inl e
          | Inr sh2 \<Rightarrow>
              (case open_file (os_of t) sh2 (close_file (own t)) of
                 (False, b') \<Rightarrow> Inr (Returned False, sh2, b')
               | (True, b') \<Rightarrow>
                   (case write_audit (pg_of t) (os_of t) (record_of t) sh2 b' of
                      Inl e \<Rightarrow> Inl e
                    | Inr (ok, b'') \<Rightarrow> Inr (Returned ok, sh2, b''))))"
proof (cases "calculate_filename (pg_of t) g sh")
  case (Inl e)
  with assms show ?thesis
    by (simp add: task_step_def calculate_filename_def)
next
  case (Inr sh2)
  let ?t = "t\<lparr>pc := Check_open, own := close_file (own t)\<rparr>"
  have "task_steps g (Suc (Suc (Suc (Suc (Suc (Suc n)))))) sh t
        = task_steps g (Suc (Suc (Suc n))) sh2 ?t"
    using assms Inr by (simp add: task_step_def calculate_filename_def)
  with task_steps_open [of ?t g n sh2] Inr show ?thesis
    by (simp add: is_open_file_def open_file_def)
qed

lemma task_steps_alone:
  assumes "pc t = Check_force"
  shows "map_sum id (\<lambda>(sh', t'). (pc t', sh', own t')) (task_steps g 11 sh t)
       = map_sum id (\<lambda>(ok, sh', b'). (Returned ok, sh', b'))
           (record_audit (pg_of t) (os_of t) g (record_of t) sh (own t))"
proof -
  have n: "(11::nat) = Suc (Suc (Suc (Suc (Suc (Suc (Suc (Suc (Suc (Suc (Suc 0))))))))))"
    by simp
  consider (force) "force_rotation sh"
    | (differs) "\<not> force_rotation sh"
        "pg_strcasecmp (pg_of t) (filename_in_use (own t)) (filename sh) \<noteq> 0"
    | (deadline) "\<not> force_rotation sh"
        "pg_strcasecmp (pg_of t) (filename_in_use (own t)) (filename sh) = 0"
        "next_rotation_time sh \<le> time_check (os_of t)"
    | (none) "\<not> force_rotation sh"
        "pg_strcasecmp (pg_of t) (filename_in_use (own t)) (filename sh) = 0"
        "time_check (os_of t) < next_rotation_time sh"
    by fastforce
  then show ?thesis
  proof cases
    case force
    let ?sh = "sh\<lparr>force_rotation := False\<rparr>"
    let ?t = "t\<lparr>pc := Read_period, needs_rotate_answer := Some True\<rparr>"
    have "task_steps g 11 sh t = task_steps g (Suc (Suc (Suc (Suc (Suc (Suc (Suc (Suc (Suc 0))))))))) ?sh ?t"
      unfolding n using assms force by (simp add: task_step_def)
    with task_steps_rotate [of ?t g "Suc (Suc (Suc 0))" ?sh] force show ?thesis
      by (auto simp add: record_audit_def needs_rotate_file_def is_open_file_def
          split: sum.splits prod.splits bool.splits)
  next
    case differs
    let ?t = "t\<lparr>pc := Read_period, needs_rotate_answer := Some True\<rparr>"
    have "task_steps g 11 sh t = task_steps g (Suc (Suc (Suc (Suc (Suc (Suc (Suc (Suc (Suc 0))))))))) sh ?t"
      unfolding n using assms differs by (simp add: task_step_def)
    with task_steps_rotate [of ?t g "Suc (Suc (Suc 0))" sh] differs show ?thesis
      by (auto simp add: record_audit_def needs_rotate_file_def is_open_file_def
          split: sum.splits prod.splits bool.splits)
  next
    case deadline
    show ?thesis
    proof (cases "calculate_next_rotation_time (time_calc (os_of t))
                    (tm_gmtoff (pg_of t) (time_calc (os_of t))) (guc_pgaudit_log_rotation_age g)")
      case (Inl e)
      have "task_steps g 11 sh t = Inl e"
        unfolding n using assms deadline Inl by (simp add: task_step_def)
      with deadline Inl show ?thesis
        by (simp add: record_audit_def needs_rotate_file_def)
    next
      case (Inr d)
      let ?sh = "sh\<lparr>next_rotation_time := d\<rparr>"
      let ?t = "t\<lparr>pc := Read_period, needs_rotate_answer := Some True,
                   deadline_stores := deadline_stores t + 1\<rparr>"
      have "task_steps g 11 sh t = task_steps g (Suc (Suc (Suc (Suc (Suc (Suc (Suc 0))))))) ?sh ?t"
        unfolding n using assms deadline Inr by (simp add: task_step_def)
      with task_steps_rotate [of ?t g "Suc 0" ?sh] deadline Inr show ?thesis
        by (auto simp add: record_audit_def needs_rotate_file_def is_open_file_def
            split: sum.splits prod.splits bool.splits)
    qed
  next
    case none
    let ?t = "t\<lparr>pc := Check_open, needs_rotate_answer := Some False\<rparr>"
    have "task_steps g 11 sh t = task_steps g (Suc (Suc (Suc (Suc (Suc (Suc (Suc (Suc 0)))))))) sh ?t"
      unfolding n using assms none by (simp add: task_step_def)
    with task_steps_open [of ?t g "Suc (Suc (Suc (Suc (Suc 0))))" sh] none show ?thesis
      by (auto simp add: record_audit_def needs_rotate_file_def
          split: sum.splits prod.splits bool.splits)
  qed
qed

subsection \<open>Claim about two backends that both see the deadline passed\<close>




end
